theory Spec2Isabelle
  imports Complex_Main "HOL-Library.Word"
begin

section \<open>Tensors\<close>

text \<open>
  A four-dimensional tensor \<open>[N, C, H, W]\<close> is a nested list of reals: samples, channels,
  rows, pixels. Arithmetic is the arithmetic of the reals: rounding and the non-finite
  values of floating point are outside the embedding, and a dimension of size zero is
  only representable as an empty list at its level.
\<close>

type_synonym tensor = "real list list list list"

text \<open>
  The output of the discriminator is only ever mapped element by element and averaged
  over all its elements, so it is kept as the flat list of its elements.
\<close>

type_synonym scores = "real list"

text \<open>
  The exceptions of the Python run-time that the module can raise, and \<open>NaN\<close> for a value
  that is not a number (the mean of no elements), which the reals cannot denote.
\<close>

datatype error = RuntimeError | ValueError | IndexError | AttributeError | NaN

subsection \<open>Broadcasting element-wise operations\<close>

text \<open>
  Two dimensions broadcast when they are equal or one of them is 1; the dimension of
  size 1 is then repeated.
\<close>

definition bc_len :: "'a list \<Rightarrow> 'b list \<Rightarrow> bool" where
  "bc_len xs ys \<longleftrightarrow> length xs = length ys \<or> length xs = 1 \<or> length ys = 1"

definition bcompat :: "('a \<Rightarrow> 'b \<Rightarrow> bool) \<Rightarrow> 'a list \<Rightarrow> 'b list \<Rightarrow> bool" where
  "bcompat p xs ys \<longleftrightarrow> bc_len xs ys \<and> (\<forall>x \<in> set xs. \<forall>y \<in> set ys. p x y)"

definition bzip :: "('a \<Rightarrow> 'b \<Rightarrow> 'c) \<Rightarrow> 'a list \<Rightarrow> 'b list \<Rightarrow> 'c list" where
  "bzip f xs ys =
     (if length xs = length ys then map2 f xs ys
      else if length xs = 1 then map (f (hd xs)) ys
      else map (\<lambda>x. f x (hd ys)) xs)"

definition broadcastable :: "tensor \<Rightarrow> tensor \<Rightarrow> bool" where
  "broadcastable a b \<longleftrightarrow> bcompat (bcompat (bcompat bc_len)) a b"

definition elementwise :: "(real \<Rightarrow> real \<Rightarrow> real) \<Rightarrow> tensor \<Rightarrow> tensor \<Rightarrow> error + tensor" where
  "elementwise f a b =
     (if broadcastable a b then Inr (bzip (bzip (bzip (bzip f))) a b) else Inl RuntimeError)"

definition pointwise :: "(real \<Rightarrow> real) \<Rightarrow> tensor \<Rightarrow> tensor" where
  "pointwise f t = map (map (map (map f))) t"

text \<open>\<open>a * b\<close> and \<open>a + b\<close> on tensors, \<open>c - t\<close> with a Python number on the left.\<close>

definition t_mul :: "tensor \<Rightarrow> tensor \<Rightarrow> error + tensor" where
  "t_mul = elementwise (\<lambda>x y. x * y)"

definition t_add :: "tensor \<Rightarrow> tensor \<Rightarrow> error + tensor" where
  "t_add = elementwise (\<lambda>x y. x + y)"

definition rsub :: "real \<Rightarrow> tensor \<Rightarrow> tensor" where
  "rsub c t = pointwise (\<lambda>x. c - x) t"

subsection \<open>Concatenation, mean, ReLU, detach\<close>

text \<open>
  \<open>torch.cat((a, b), dim=1)\<close>: the channels of each sample of \<open>b\<close> follow those of the same
  sample of \<open>a\<close>; the two tensors agree in every other dimension.
\<close>

definition same_plane :: "real list list \<Rightarrow> real list list \<Rightarrow> bool" where
  "same_plane p q \<longleftrightarrow> length p = length q \<and> (\<forall>r \<in> set p. \<forall>s \<in> set q. length r = length s)"

definition cat_ok :: "tensor \<Rightarrow> tensor \<Rightarrow> bool" where
  "cat_ok a b \<longleftrightarrow> length a = length b \<and>
     (\<forall>(x, y) \<in> set (zip a b). \<forall>p \<in> set x. \<forall>q \<in> set y. same_plane p q)"

definition cat_dim1 :: "tensor \<Rightarrow> tensor \<Rightarrow> error + tensor" where
  "cat_dim1 a b = (if cat_ok a b then Inr (map2 (\<lambda>x y. x @ y) a b) else Inl RuntimeError)"

definition mean :: "scores \<Rightarrow> error + real" where
  "mean xs = (if xs = [] then Inl NaN else Inr (sum_list xs / real (length xs)))"

definition relu :: "scores \<Rightarrow> scores" where
  "relu xs = map (\<lambda>x. max 0 x) xs"

text \<open>
  \<open>detach\<close> returns a tensor that shares its data with the argument and is cut from the
  autograd graph; the graph is not part of the embedding, so the value is the same.
\<close>

definition detach :: "tensor \<Rightarrow> tensor" where
  "detach t = t"

section \<open>Hyperparameters, batches and collaborators\<close>

text \<open>The argument namespace: every attribute the class reads.\<close>

record hparams =
  input_nc :: nat
  l1_c_h :: real
  l1_c_nh :: real
  l1_r_h :: real
  l1_r_nh :: real
  lr :: real
  weight_decay :: real
  gen_loss_alpha :: real
  disc_loss_alpha :: real
  dataset :: string
  vis_dataset :: string
  image_size :: int
  bbox_shape :: int
  bbox_randomness :: real
  bbox_margin :: int
  bbox_max_num :: int
  overfit :: bool
  batch_size :: int
  num_workers :: int

text \<open>A batch is the dictionary with the keys \<open>image\<close> and \<open>mask\<close>.\<close>

record batch =
  image_of :: tensor
  mask_of :: tensor

text \<open>
  The objects the module constructs from classes defined elsewhere, by their constructor
  arguments in the order of the call.
\<close>

datatype recon_loss = ReconstructionLoss real real real real

datatype inpaint_dataset =
  InpaintDataset string string int int real int int bool

datatype data_loader = DataLoader inpaint_dataset int bool int bool

type_synonym parameters = "real list"

datatype optimizer = Adam (opt_params: parameters) (opt_lr: real) (opt_weight_decay: real)

datatype lr_scheduler = LRScheduler

type_synonym picture = "8 word list list list"

text \<open>
  The calls the module makes on its collaborators, in the order they are made: the two
  networks, the reconstruction loss and the logger.
\<close>

datatype event =
    Call_net_G tensor tensor
  | Call_net_D tensor
  | Call_recon_loss tensor tensor tensor tensor
  | Log_generator_losses nat real real
  | Log_total_generator_loss nat real
  | Log_total_discriminator_loss nat real
  | Log_discriminator_losses nat real real
  | Log_image nat picture

text \<open>
  The code that is not part of this module is a parameter: the networks (how they are
  initialised and what their forward passes compute), the forward pass of the
  reconstruction loss, and the batches a data loader yields.
\<close>

record env =
  InpaintSAGenerator :: "nat \<Rightarrow> parameters"
  InpaintSADiscriminator :: "nat \<Rightarrow> parameters"
  G_forward :: "parameters \<Rightarrow> tensor \<Rightarrow> tensor \<Rightarrow> error + tensor \<times> tensor"
  D_forward :: "parameters \<Rightarrow> tensor \<Rightarrow> error + scores"
  recon_forward :: "recon_loss \<Rightarrow> tensor \<Rightarrow> tensor \<Rightarrow> tensor \<Rightarrow> tensor \<Rightarrow> error + real"
  batches :: "data_loader \<Rightarrow> batch list"

section \<open>The module \<open>DeepFillV2\<close>\<close>

text \<open>
  The attributes of the object. A network is held as its parameters. \<open>global_step\<close> is
  the trainer's counter, which the methods only read. \<open>trace\<close> records the calls made on
  the networks, the reconstruction loss and the logger, in their order. The variables
  \<open>image\<close> and \<open>mask\<close> of the source are written \<open>img\<close> and \<open>msk\<close>.
\<close>

record model =
  hparams :: hparams
  net_G :: parameters
  net_D :: parameters
  recon_loss :: recon_loss
  last_batch :: "batch option"
  generated_image :: "tensor option"
  generated_image_only_patch :: "tensor option"
  visualization_dataloader :: "data_loader option"
  global_step :: nat
  trace :: "event list"

record loss_dict =
  loss :: real
  progress_bar :: "(string \<times> real) list"

definition emit :: "event \<Rightarrow> model \<Rightarrow> model" where
  "emit ev self = self\<lparr>trace := trace self @ [ev]\<rparr>"

text \<open>An exception leaves the method with the object as it is at that point.\<close>

definition raising :: "error + 'a \<Rightarrow> model \<Rightarrow> ('a \<Rightarrow> (error + 'b) \<times> model) \<Rightarrow> (error + 'b) \<times> model" where
  "raising r self k = (case r of Inl e \<Rightarrow> (Inl e, self) | Inr v \<Rightarrow> k v)"

definition bindE :: "error + 'a \<Rightarrow> ('a \<Rightarrow> error + 'b) \<Rightarrow> error + 'b" where
  "bindE r k = (case r of Inl e \<Rightarrow> Inl e | Inr v \<Rightarrow> k v)"

subsection \<open>Construction and data loaders\<close>

definition train_dataloader :: "model \<Rightarrow> data_loader" where
  "train_dataloader self =
     (let hp = hparams self;
          dataset = InpaintDataset (dataset hp) ''train'' (image_size hp) (bbox_shape hp)
                      (bbox_randomness hp) (bbox_margin hp) (bbox_max_num hp) (overfit hp)
      in DataLoader dataset (batch_size hp) True (num_workers hp) True)"

definition val_dataloader :: "model \<Rightarrow> data_loader" where
  "val_dataloader self =
     (let hp = hparams self;
          dataset = InpaintDataset (dataset hp) ''val'' (image_size hp) (bbox_shape hp)
                      (bbox_randomness hp) (bbox_margin hp) (bbox_max_num hp) False
      in DataLoader dataset (batch_size hp) False (num_workers hp) False)"

definition setup_dataloader_for_visualizations :: "model \<Rightarrow> data_loader" where
  "setup_dataloader_for_visualizations self =
     (let hp = hparams self;
          dataset = InpaintDataset (dataset hp) (vis_dataset hp) (image_size hp) (bbox_shape hp)
                      (bbox_randomness hp) (bbox_margin hp) (bbox_max_num hp) False
      in DataLoader dataset (batch_size hp) False (num_workers hp) False)"

text \<open>
  \<open>__init__\<close>. The step counter and the logger belong to the trainer; a new module has
  made no step and no call.
\<close>

definition DeepFillV2 :: "env \<Rightarrow> hparams \<Rightarrow> model" where
  "DeepFillV2 env args =
     (let self = \<lparr>hparams = args,
                  net_G = InpaintSAGenerator env (input_nc args),
                  net_D = InpaintSADiscriminator env (input_nc args),
                  recon_loss = ReconstructionLoss (l1_c_h args) (l1_c_nh args) (l1_r_h args) (l1_r_nh args),
                  last_batch = None,
                  generated_image = None,
                  generated_image_only_patch = None,
                  visualization_dataloader = None,
                  global_step = 0,
                  trace = []\<rparr>
      in self\<lparr>visualization_dataloader := Some (setup_dataloader_for_visualizations self)\<rparr>)"

subsection \<open>Optimizers\<close>

text \<open>
  \<open>torch.optim.Adam\<close> refuses an empty parameter list, a negative learning rate and a
  negative weight decay.
\<close>

definition new_Adam :: "parameters \<Rightarrow> real \<Rightarrow> real \<Rightarrow> error + optimizer" where
  "new_Adam ps rate decay =
     (if ps = [] then Inl ValueError
      else if rate < 0 then Inl ValueError
      else if decay < 0 then Inl ValueError
      else Inr (Adam ps rate decay))"

definition configure_optimizers :: "model \<Rightarrow> error + optimizer list \<times> lr_scheduler list" where
  "configure_optimizers self =
     (let lr = lr (hparams self);
          decay = weight_decay (hparams self)
      in bindE (new_Adam (net_G self) lr decay) (\<lambda>opt_g.
         bindE (new_Adam (net_D self) (4 * lr) decay) (\<lambda>opt_d.
         Inr ([opt_g, opt_d], []))))"

subsection \<open>The training step\<close>

text \<open>\<open>refined_image * mask + image * (1 - mask)\<close>\<close>

definition blend :: "tensor \<Rightarrow> tensor \<Rightarrow> tensor \<Rightarrow> error + tensor" where
  "blend refined_image img msk =
     bindE (t_mul refined_image msk) (\<lambda>a.
     bindE (t_mul img (rsub 1 msk)) (\<lambda>b.
     t_add a b))"

definition generator_step :: "env \<Rightarrow> model \<Rightarrow> tensor \<Rightarrow> tensor \<Rightarrow> (error + loss_dict option) \<times> model" where
  "generator_step env self1 img msk =
     (let self2 = emit (Call_net_G img msk) self1 in
      raising (G_forward env (net_G self2) img msk) self2 (\<lambda>(coarse_image, refined_image).
      let self3 = self2\<lparr>generated_image := Some refined_image\<rparr>;
          self4 = emit (Call_recon_loss img coarse_image refined_image msk) self3 in
      raising (recon_forward env (recon_loss self4) img coarse_image refined_image msk) self4
        (\<lambda>reconstruction_loss.
      raising (blend refined_image img msk) self4 (\<lambda>completed_image.
      let self5 = self4\<lparr>generated_image_only_patch := Some completed_image\<rparr> in
      raising (cat_dim1 completed_image msk) self5 (\<lambda>d_in.
      let self6 = emit (Call_net_D d_in) self5 in
      raising (D_forward env (net_D self6) d_in) self6 (\<lambda>d_fake.
      raising (mean d_fake) self6 (\<lambda>m.
      let gen_loss = - gen_loss_alpha (hparams self6) * m;
          total_loss = gen_loss + reconstruction_loss;
          self7 = emit (Log_generator_losses (global_step self6) gen_loss reconstruction_loss) self6;
          self8 = emit (Log_total_generator_loss (global_step self7) total_loss) self7
      in (Inr (Some \<lparr>loss = total_loss,
                      progress_bar = [(''gen_loss'', gen_loss),
                                      (''recon_loss'', reconstruction_loss)]\<rparr>),
          self8))))))))"

definition discriminator_step :: "env \<Rightarrow> model \<Rightarrow> tensor \<Rightarrow> tensor \<Rightarrow> (error + loss_dict option) \<times> model" where
  "discriminator_step env self1 img msk =
     raising (cat_dim1 img msk) self1 (\<lambda>real_in.
     let self2 = emit (Call_net_D real_in) self1 in
     raising (D_forward env (net_D self2) real_in) self2 (\<lambda>d_real.
     raising (case generated_image_only_patch self2 of
                None \<Rightarrow> Inl AttributeError
              | Some patch \<Rightarrow> Inr (detach patch)) self2 (\<lambda>detached.
     raising (cat_dim1 detached msk) self2 (\<lambda>fake_in.
     let self3 = emit (Call_net_D fake_in) self2 in
     raising (D_forward env (net_D self3) fake_in) self3 (\<lambda>d_fake.
     raising (mean (relu (map (\<lambda>x. 1 - x) d_real))) self3 (\<lambda>real_loss.
     raising (mean (relu (map (\<lambda>x. 1 + x) d_fake))) self3 (\<lambda>fake_loss.
     let disc_loss = disc_loss_alpha (hparams self3) * (real_loss + fake_loss);
         self4 = emit (Log_total_discriminator_loss (global_step self3) disc_loss) self3;
         self5 = emit (Log_discriminator_losses (global_step self4) real_loss fake_loss) self4
     in (Inr (Some \<lparr>loss = disc_loss,
                     progress_bar = [(''d_real_loss'', real_loss),
                                     (''d_fake_loss'', fake_loss)]\<rparr>),
         self5))))))))"

definition training_step :: "env \<Rightarrow> model \<Rightarrow> batch \<Rightarrow> int \<Rightarrow> int \<Rightarrow> (error + loss_dict option) \<times> model" where
  "training_step env self batch batch_idx optimizer_idx =
     (let img = image_of batch;
          msk = mask_of batch;
          self1 = self\<lparr>last_batch := Some batch\<rparr>
      in if optimizer_idx = 0 then generator_step env self1 img msk
         else if optimizer_idx = 1 then discriminator_step env self1 img msk
         else (Inr None, self1))"

subsection \<open>The visualization at the end of an epoch\<close>

text \<open>
  \<open>np.transpose(x, axes=[1, 2, 0])\<close> of a \<open>[C, H, W]\<close> array: the \<open>[H, W, C]\<close> array with
  \<open>out[h][w][c] = x[c][h][w]\<close>.
\<close>

definition np_transpose_120 :: "real list list list \<Rightarrow> real list list list" where
  "np_transpose_120 x =
     (let C = length x;
          H = (case x of [] \<Rightarrow> 0 | p # _ \<Rightarrow> length p);
          W = (case concat x of [] \<Rightarrow> 0 | r # _ \<Rightarrow> length r)
      in map (\<lambda>h. map (\<lambda>w. map (\<lambda>c. x ! c ! h ! w) [0..<C]) [0..<W]) [0..<H])"

definition norm_std :: "real list" where
  "norm_std = [0.229, 0.224, 0.225]"

definition norm_mean :: "real list" where
  "norm_mean = [0.485, 0.456, 0.406]"

text \<open>
  \<open>astype(np.uint8)\<close> drops the fraction; a value outside \<open>0..255\<close> is taken modulo 256,
  which is what the cast does on the usual platforms.
\<close>

definition astype_uint8 :: "real \<Rightarrow> 8 word" where
  "astype_uint8 v = word_of_int (if 0 \<le> v then \<lfloor>v\<rfloor> else \<lceil>v\<rceil>)"

text \<open>
  \<open>((np.transpose(x, axes=[1, 2, 0]) * (0.229, 0.224, 0.225) + (0.485, 0.456, 0.406)) * 255).astype(np.uint8)\<close>:
  the two triples broadcast along the last axis, which has to be of size 3 or 1.
\<close>

definition denormalize_pixel :: "real list \<Rightarrow> 8 word list" where
  "denormalize_pixel px =
     map astype_uint8 (map (\<lambda>v. v * 255) (bzip (\<lambda>a b. a + b) (bzip (\<lambda>a b. a * b) px norm_std) norm_mean))"

definition to_picture :: "real list list list \<Rightarrow> error + picture" where
  "to_picture x =
     (let y = np_transpose_120 x
      in if \<forall>row \<in> set y. \<forall>px \<in> set row. bc_len px norm_std
         then Inr (map (map denormalize_pixel) y)
         else Inl ValueError)"

definition get_item :: "'a list \<Rightarrow> nat \<Rightarrow> error + 'a" where
  "get_item xs j = (if j < length xs then Inr (xs ! j) else Inl IndexError)"

text \<open>The five lists the method fills, one picture per sample.\<close>

record columns =
  images :: "picture list"
  coarse :: "picture list"
  refined :: "picture list"
  masked :: "picture list"
  completed :: "picture list"

definition no_columns :: columns where
  "no_columns = \<lparr>images = [], coarse = [], refined = [], masked = [], completed = []\<rparr>"

text \<open>
  The tensors computed for one batch: coarse, refined, masked and completed image. Moving
  a tensor between devices and to NumPy, and switching gradients off, do not change a
  value.
\<close>

definition visualize_batch :: "env \<Rightarrow> model \<Rightarrow> batch \<Rightarrow> (error + tensor \<times> tensor \<times> tensor \<times> tensor) \<times> model" where
  "visualize_batch env self batch =
     (let img = image_of batch;
          msk = mask_of batch;
          self1 = emit (Call_net_G img msk) self in
      raising (G_forward env (net_G self1) img msk) self1 (\<lambda>(coarse_image, refined_image).
      raising (blend refined_image img msk) self1 (\<lambda>completed_image.
      raising (bindE (t_mul img (rsub 1 msk)) (\<lambda>a. t_add a msk)) self1 (\<lambda>masked_image.
      (Inr (coarse_image, refined_image, masked_image, completed_image), self1)))))"

text \<open>The body of the loop over the samples of a batch: five appends.\<close>

definition sample_pictures :: "tensor \<Rightarrow> tensor \<times> tensor \<times> tensor \<times> tensor \<Rightarrow> nat \<Rightarrow> columns \<Rightarrow> error + columns" where
  "sample_pictures img views j cols =
     (case views of (coarse_image, refined_image, masked_image, completed_image) \<Rightarrow>
      bindE (bindE (get_item img j) to_picture) (\<lambda>p1.
      bindE (bindE (get_item coarse_image j) to_picture) (\<lambda>p2.
      bindE (bindE (get_item refined_image j) to_picture) (\<lambda>p3.
      bindE (bindE (get_item masked_image j) to_picture) (\<lambda>p4.
      bindE (bindE (get_item completed_image j) to_picture) (\<lambda>p5.
      Inr (cols\<lparr>images := images cols @ [p1],
                 coarse := coarse cols @ [p2],
                 refined := refined cols @ [p3],
                 masked := masked cols @ [p4],
                 completed := completed cols @ [p5]\<rparr>)))))))"

fun append_pictures :: "(nat \<Rightarrow> columns \<Rightarrow> error + columns) \<Rightarrow> nat list \<Rightarrow> columns \<Rightarrow> error + columns" where
  "append_pictures body [] cols = Inr cols"
| "append_pictures body (j # js) cols =
     (case body j cols of Inl e \<Rightarrow> Inl e | Inr cols' \<Rightarrow> append_pictures body js cols')"

fun visualize_batches :: "env \<Rightarrow> model \<Rightarrow> batch list \<Rightarrow> columns \<Rightarrow> (error + columns) \<times> model" where
  "visualize_batches env self [] cols = (Inr cols, self)"
| "visualize_batches env self (batch # rest) cols =
     (case visualize_batch env self batch of
        (Inl e, self1) \<Rightarrow> (Inl e, self1)
      | (Inr views, self1) \<Rightarrow>
          (case append_pictures (sample_pictures (image_of batch) views)
                  [0..<length (image_of batch)] cols of
             Inl e \<Rightarrow> (Inl e, self1)
           | Inr cols' \<Rightarrow> visualize_batches env self1 rest cols'))"

text \<open>
  \<open>np.vstack\<close> joins pictures along the rows and \<open>np.hstack\<close> along the columns; both
  refuse an empty list and pictures that differ in another dimension.
\<close>

definition uniform_len :: "'a list list \<Rightarrow> bool" where
  "uniform_len xs \<longleftrightarrow> (\<forall>x \<in> set xs. \<forall>y \<in> set xs. length x = length y)"

definition vstack :: "picture list \<Rightarrow> error + picture" where
  "vstack ps =
     (if ps = [] then Inl ValueError
      else if uniform_len (concat ps) \<and> uniform_len (concat (concat ps)) then Inr (concat ps)
      else Inl ValueError)"

definition hstack :: "picture list \<Rightarrow> error + picture" where
  "hstack ps =
     (case ps of
        [] \<Rightarrow> Inl ValueError
      | p # _ \<Rightarrow>
          if uniform_len ps \<and> uniform_len (concat (concat ps))
          then Inr (map (\<lambda>h. concat (map (\<lambda>q. q ! h) ps)) [0..<length p])
          else Inl ValueError)"

definition on_epoch_end :: "env \<Rightarrow> model \<Rightarrow> (error + unit) \<times> model" where
  "on_epoch_end env self =
     raising (case visualization_dataloader self of
                None \<Rightarrow> Inl AttributeError
              | Some loader \<Rightarrow> Inr loader) self (\<lambda>loader.
     case visualize_batches env self (batches env loader) no_columns of
       (Inl e, self1) \<Rightarrow> (Inl e, self1)
     | (Inr cols, self1) \<Rightarrow>
         raising (vstack (masked cols)) self1 (\<lambda>c1.
         raising (vstack (coarse cols)) self1 (\<lambda>c2.
         raising (vstack (refined cols)) self1 (\<lambda>c3.
         raising (vstack (completed cols)) self1 (\<lambda>c4.
         raising (vstack (images cols)) self1 (\<lambda>c5.
         raising (hstack [c1, c2, c3, c4, c5]) self1 (\<lambda>visualization.
         (Inr (), emit (Log_image (global_step self1) visualization) self1))))))))"

section \<open>Notions used to state the properties\<close>

subsection \<open>Shapes and binary masks\<close>

definition has_shape :: "tensor \<Rightarrow> nat \<Rightarrow> nat \<Rightarrow> nat \<Rightarrow> nat \<Rightarrow> bool" where
  "has_shape t N C H W \<longleftrightarrow>
     length t = N \<and>
     (\<forall>s \<in> set t. length s = C \<and> (\<forall>p \<in> set s. length p = H \<and> (\<forall>r \<in> set p. length r = W)))"

definition binary :: "tensor \<Rightarrow> bool" where
  "binary t \<longleftrightarrow> (\<forall>s \<in> set t. \<forall>p \<in> set s. \<forall>r \<in> set p. \<forall>v \<in> set r. v = 0 \<or> v = 1)"

subsection \<open>What a call adds to the trace\<close>

definition new_events :: "model \<Rightarrow> model \<Rightarrow> event list" where
  "new_events self self' = drop (length (trace self)) (trace self')"

fun net_D_input :: "event \<Rightarrow> tensor list" where
  "net_D_input (Call_net_D t) = [t]"
| "net_D_input _ = []"

definition net_D_inputs :: "event list \<Rightarrow> tensor list" where
  "net_D_inputs evs = concat (map net_D_input evs)"

fun logged_image :: "event \<Rightarrow> (nat \<times> picture) list" where
  "logged_image (Log_image step p) = [(step, p)]"
| "logged_image _ = []"

definition logged_images :: "event list \<Rightarrow> (nat \<times> picture) list" where
  "logged_images evs = concat (map logged_image evs)"

subsection \<open>The hinge\<close>

text \<open>The mean of \<open>relu (f x)\<close> over the scores \<open>x\<close>.\<close>

definition hinge_mean :: "(real \<Rightarrow> real) \<Rightarrow> scores \<Rightarrow> real" where
  "hinge_mean f xs = sum_list (map (\<lambda>x. max 0 (f x)) xs) / real (length xs)"

subsection \<open>Sequences of calls\<close>

text \<open>
  The methods a trainer calls on the module. A call that raises leaves the object as the
  exception found it, and the next call works on that object.
\<close>

datatype call =
    Training_step batch int int
  | Configure_optimizers
  | On_epoch_end

fun perform :: "env \<Rightarrow> model \<Rightarrow> call \<Rightarrow> model" where
  "perform env self (Training_step batch batch_idx optimizer_idx) =
     snd (training_step env self batch batch_idx optimizer_idx)"
| "perform env self Configure_optimizers = self"
| "perform env self On_epoch_end = snd (on_epoch_end env self)"

fun is_generator_step :: "call \<Rightarrow> bool" where
  "is_generator_step (Training_step batch batch_idx optimizer_idx) = (optimizer_idx = 0)"
| "is_generator_step _ = False"

subsection \<open>The reconstruction loss\<close>

text \<open>
  Modelled from the spec: the forward pass of \<open>ReconstructionLoss\<close>, whose class is in
  \<open>util/loss.py\<close> and not among the sources. The spec describes it as a weighted L1
  loss inside and outside the masked region, separately for the coarse and the refined
  output: the L1 distance to the image is averaged over the hole (weighted by the mask)
  and over the rest (weighted by one minus the mask), and the four averages are added
  with the four weights of the constructor.
\<close>

definition flatten :: "tensor \<Rightarrow> real list" where
  "flatten t = concat (concat (concat t))"

definition l1_region :: "tensor \<Rightarrow> tensor \<Rightarrow> tensor \<Rightarrow> error + real" where
  "l1_region img output region =
     bindE (elementwise (\<lambda>x y. \<bar>x - y\<bar>) img output) (\<lambda>d.
     bindE (t_mul d region) (\<lambda>w.
     mean (flatten w)))"

definition ReconstructionLoss_forward :: "recon_loss \<Rightarrow> tensor \<Rightarrow> tensor \<Rightarrow> tensor \<Rightarrow> tensor \<Rightarrow> error + real" where
  "ReconstructionLoss_forward rl img coarse_image refined_image msk =
     (case rl of ReconstructionLoss c_h c_nh r_h r_nh \<Rightarrow>
      bindE (l1_region img coarse_image msk) (\<lambda>ch.
      bindE (l1_region img coarse_image (rsub 1 msk)) (\<lambda>cnh.
      bindE (l1_region img refined_image msk) (\<lambda>rh.
      bindE (l1_region img refined_image (rsub 1 msk)) (\<lambda>rnh.
      Inr (c_h * ch + c_nh * cnh + r_h * rh + r_nh * rnh))))))"

subsection \<open>The image grid, as it is described\<close>

text \<open>
  The grid as the description has it, for comparison with the loop of \<open>on_epoch_end\<close>:
  every sample of every batch gives one picture per column; the masked picture is the
  image with the hole set to 1; a column is its pictures one below the other, and the
  grid is the columns masked, coarse, refined, completed, original side by side.
\<close>

definition hole_to_one :: "tensor \<Rightarrow> tensor \<Rightarrow> error + tensor" where
  "hole_to_one img msk = elementwise (\<lambda>x m. if m = 1 then 1 else x) img msk"

fun mapE :: "('a \<Rightarrow> error + 'b) \<Rightarrow> 'a list \<Rightarrow> error + 'b list" where
  "mapE f [] = Inr []"
| "mapE f (x # xs) =
     (case f x of
        Inl e \<Rightarrow> Inl e
      | Inr y \<Rightarrow> (case mapE f xs of Inl e \<Rightarrow> Inl e | Inr ys \<Rightarrow> Inr (y # ys)))"

definition pictures :: "nat \<Rightarrow> tensor \<Rightarrow> error + picture list" where
  "pictures n t = mapE (\<lambda>j. bindE (get_item t j) to_picture) [0..<n]"

definition batch_columns :: "env \<Rightarrow> parameters \<Rightarrow> batch \<Rightarrow> error + columns" where
  "batch_columns env ps b =
     (let img = image_of b; msk = mask_of b; n = length img in
      bindE (G_forward env ps img msk) (\<lambda>(coarse_image, refined_image).
      bindE (blend refined_image img msk) (\<lambda>completed_image.
      bindE (hole_to_one img msk) (\<lambda>masked_image.
      bindE (pictures n img) (\<lambda>p1.
      bindE (pictures n coarse_image) (\<lambda>p2.
      bindE (pictures n refined_image) (\<lambda>p3.
      bindE (pictures n masked_image) (\<lambda>p4.
      bindE (pictures n completed_image) (\<lambda>p5.
      Inr \<lparr>images = p1, coarse = p2, refined = p3, masked = p4, completed = p5\<rparr>)))))))))"

definition described_grid :: "env \<Rightarrow> parameters \<Rightarrow> batch list \<Rightarrow> error + picture" where
  "described_grid env ps bs =
     bindE (mapE (batch_columns env ps) bs) (\<lambda>cs.
     bindE (vstack (concat (map masked cs))) (\<lambda>c1.
     bindE (vstack (concat (map coarse cs))) (\<lambda>c2.
     bindE (vstack (concat (map refined cs))) (\<lambda>c3.
     bindE (vstack (concat (map completed cs))) (\<lambda>c4.
     bindE (vstack (concat (map images cs))) (\<lambda>c5.
     hstack [c1, c2, c3, c4, c5]))))))"

subsection \<open>Batches on which the visualization succeeds\<close>

text \<open>
  A batch of at least one sample, with an image of three channels of \<open>H\<close> rows of \<open>W\<close>
  pixels, a mask of one channel of the same size, and a generator that returns a coarse
  and a refined image of the shape of the image.
\<close>

definition well_formed_batch :: "env \<Rightarrow> parameters \<Rightarrow> nat \<Rightarrow> nat \<Rightarrow> batch \<Rightarrow> bool" where
  "well_formed_batch env ps H W b \<longleftrightarrow>
     (let N = length (image_of b) in
      0 < N \<and> has_shape (image_of b) N 3 H W \<and> has_shape (mask_of b) N 1 H W \<and>
      (case G_forward env ps (image_of b) (mask_of b) of
         Inl e \<Rightarrow> False
       | Inr (coarse_image, refined_image) \<Rightarrow>
           has_shape coarse_image N 3 H W \<and> has_shape refined_image N 3 H W))"

text \<open>A picture of \<open>H\<close> rows of \<open>W\<close> pixels of three bytes.\<close>

definition pic_shape :: "picture \<Rightarrow> nat \<Rightarrow> nat \<Rightarrow> bool" where
  "pic_shape p H W \<longleftrightarrow>
     length p = H \<and> (\<forall>row \<in> set p. length row = W \<and> (\<forall>px \<in> set row. length px = 3))"

text \<open>A column of \<open>k\<close> such pictures, and five of them.\<close>

definition column_ok :: "picture list \<Rightarrow> nat \<Rightarrow> nat \<Rightarrow> nat \<Rightarrow> bool" where
  "column_ok ps H W k \<longleftrightarrow> length ps = k \<and> (\<forall>p \<in> set ps. pic_shape p H W)"

definition columns_ok :: "columns \<Rightarrow> nat \<Rightarrow> nat \<Rightarrow> nat \<Rightarrow> bool" where
  "columns_ok cols H W k \<longleftrightarrow>
     column_ok (images cols) H W k \<and> column_ok (coarse cols) H W k \<and>
     column_ok (refined cols) H W k \<and> column_ok (masked cols) H W k \<and>
     column_ok (completed cols) H W k"

subsection \<open>A concrete module\<close>

text \<open>
  One batch of one sample with three channels and two pixels, the second of them in the
  hole; a generator that returns a black coarse image and the image plus one, a
  discriminator that scores every element by itself.
\<close>

definition batch0 :: batch where
  "batch0 = \<lparr>image_of = [[[[0.5, -1]], [[0, 1]], [[2, 0.25]]]], mask_of = [[[[0, 1]]]]\<rparr>"

definition env0 :: env where
  "env0 = \<lparr>InpaintSAGenerator = (\<lambda>nc. [1]),
           InpaintSADiscriminator = (\<lambda>nc. [2]),
           G_forward = (\<lambda>ps img msk. Inr (pointwise (\<lambda>x. 0) img, pointwise (\<lambda>x. x + 1) img)),
           D_forward = (\<lambda>ps t. Inr (flatten t)),
           recon_forward = ReconstructionLoss_forward,
           batches = (\<lambda>loader. [batch0])\<rparr>"

definition args0 :: hparams where
  "args0 = \<lparr>input_nc = 4, l1_c_h = 1.2, l1_c_nh = 1.2, l1_r_h = 1.2, l1_r_nh = 1.2,
     lr = 0.0001, weight_decay = 0, gen_loss_alpha = 0.001, disc_loss_alpha = 1,
     dataset = ''places'', vis_dataset = ''vis'', image_size = 256, bbox_shape = 128,
     bbox_randomness = 0.25, bbox_margin = 0, bbox_max_num = 1, overfit = False,
     batch_size = 1, num_workers = 0\<rparr>"

text \<open>The module as constructed, and after a generator step on the batch.\<close>

definition model0 :: model where
  "model0 = DeepFillV2 env0 args0"

definition model1 :: model where
  "model1 = snd (training_step env0 model0 batch0 0 0)"

section \<open>Basic facts\<close>

lemma raising_Inl [simp]: "raising (Inl e) self k = (Inl e, self)"
  by (simp add: raising_def)

lemma raising_Inr [simp]: "raising (Inr v) self k = k v"
  by (simp add: raising_def)

lemma bindE_Inl [simp]: "bindE (Inl e) k = Inl e"
  by (simp add: bindE_def)

lemma bindE_Inr [simp]: "bindE (Inr v) k = k v"
  by (simp add: bindE_def)

lemma bindE_eq_Inr: "bindE r k = Inr y \<longleftrightarrow> (\<exists>v. r = Inr v \<and> k v = Inr y)"
  by (cases r) simp_all

lemma emit_fields [simp]:
  "hparams (emit ev self) = hparams self"
  "net_G (emit ev self) = net_G self"
  "net_D (emit ev self) = net_D self"
  "recon_loss (emit ev self) = recon_loss self"
  "last_batch (emit ev self) = last_batch self"
  "generated_image (emit ev self) = generated_image self"
  "generated_image_only_patch (emit ev self) = generated_image_only_patch self"
  "visualization_dataloader (emit ev self) = visualization_dataloader self"
  "global_step (emit ev self) = global_step self"
  "trace (emit ev self) = trace self @ [ev]"
  by (simp_all add: emit_def)

subsection \<open>What the two steps return and do\<close>

lemma generator_step_Inr:
  "generator_step env self img msk = (Inr r, self') \<longleftrightarrow>
     (\<exists>coarse_image refined_image rl completed_image d_in d_fake m.
        G_forward env (net_G self) img msk = Inr (coarse_image, refined_image) \<and>
        recon_forward env (recon_loss self) img coarse_image refined_image msk = Inr rl \<and>
        blend refined_image img msk = Inr completed_image \<and>
        cat_dim1 completed_image msk = Inr d_in \<and>
        D_forward env (net_D self) d_in = Inr d_fake \<and>
        mean d_fake = Inr m \<and>
        r = Some \<lparr>loss = - gen_loss_alpha (hparams self) * m + rl,
                   progress_bar = [(''gen_loss'', - gen_loss_alpha (hparams self) * m),
                                   (''recon_loss'', rl)]\<rparr> \<and>
        self' = self\<lparr>generated_image := Some refined_image,
                     generated_image_only_patch := Some completed_image,
                     trace := trace self @
                       [Call_net_G img msk,
                        Call_recon_loss img coarse_image refined_image msk,
                        Call_net_D d_in,
                        Log_generator_losses (global_step self) (- gen_loss_alpha (hparams self) * m) rl,
                        Log_total_generator_loss (global_step self) (- gen_loss_alpha (hparams self) * m + rl)]\<rparr>)"
  unfolding generator_step_def Let_def
  by (auto simp: emit_def raising_def split: sum.splits prod.splits)

lemma discriminator_step_Inr:
  "discriminator_step env self img msk = (Inr r, self') \<longleftrightarrow>
     (\<exists>real_in d_real patch fake_in d_fake real_loss fake_loss.
        cat_dim1 img msk = Inr real_in \<and>
        D_forward env (net_D self) real_in = Inr d_real \<and>
        generated_image_only_patch self = Some patch \<and>
        cat_dim1 (detach patch) msk = Inr fake_in \<and>
        D_forward env (net_D self) fake_in = Inr d_fake \<and>
        mean (relu (map (\<lambda>x. 1 - x) d_real)) = Inr real_loss \<and>
        mean (relu (map (\<lambda>x. 1 + x) d_fake)) = Inr fake_loss \<and>
        r = Some \<lparr>loss = disc_loss_alpha (hparams self) * (real_loss + fake_loss),
                   progress_bar = [(''d_real_loss'', real_loss), (''d_fake_loss'', fake_loss)]\<rparr> \<and>
        self' = self\<lparr>trace := trace self @
                       [Call_net_D real_in,
                        Call_net_D fake_in,
                        Log_total_discriminator_loss (global_step self)
                          (disc_loss_alpha (hparams self) * (real_loss + fake_loss)),
                        Log_discriminator_losses (global_step self) real_loss fake_loss]\<rparr>)"
  unfolding discriminator_step_def Let_def
  by (auto simp: emit_def raising_def split: sum.splits option.splits)

text \<open>Whatever happens, a step leaves the hyperparameters alone.\<close>

lemma hparams_generator_step:
  "hparams (snd (generator_step env self img msk)) = hparams self"
  unfolding generator_step_def Let_def
  by (auto simp: raising_def split: sum.splits prod.splits)

lemma hparams_discriminator_step:
  "hparams (snd (discriminator_step env self img msk)) = hparams self"
  unfolding discriminator_step_def Let_def
  by (auto simp: raising_def split: sum.splits option.splits)

lemma patch_discriminator_step:
  "generated_image_only_patch (snd (discriminator_step env self img msk)) =
     generated_image_only_patch self"
  unfolding discriminator_step_def Let_def
  by (auto simp: raising_def split: sum.splits option.splits)

lemma hparams_training_step:
  "hparams (snd (training_step env self batch batch_idx optimizer_idx)) = hparams self"
  by (simp add: training_step_def Let_def hparams_generator_step hparams_discriminator_step)

lemma patch_training_step:
  "optimizer_idx \<noteq> 0 \<Longrightarrow>
   generated_image_only_patch (snd (training_step env self batch batch_idx optimizer_idx)) =
     generated_image_only_patch self"
  by (simp add: training_step_def Let_def patch_discriminator_step)

subsection \<open>The loop of the visualization only extends the trace\<close>

lemma visualize_batch_frame:
  "snd (visualize_batch env self b) = emit (Call_net_G (image_of b) (mask_of b)) self"
  unfolding visualize_batch_def Let_def
  by (auto simp: raising_def split: sum.splits prod.splits)

lemma visualize_batches_frame:
  "\<exists>evs. snd (visualize_batches env self bs cols) = self\<lparr>trace := trace self @ evs\<rparr>
     \<and> net_D_inputs evs = [] \<and> logged_images evs = []"
proof (induction bs arbitrary: self cols)
  case Nil
  show ?case
    by (rule exI[of _ "[]"]) (simp add: net_D_inputs_def logged_images_def)
next
  case (Cons b bs)
  let ?s1 = "emit (Call_net_G (image_of b) (mask_of b)) self"
  have s1: "snd (visualize_batch env self b) = ?s1" by (rule visualize_batch_frame)
  have base: "?s1 = self\<lparr>trace := trace self @ [Call_net_G (image_of b) (mask_of b)]\<rparr>"
    by (simp add: emit_def)
  show ?case
  proof (cases "visualize_batch env self b")
    case (Pair r s')
    with s1 have s': "s' = ?s1" by simp
    show ?thesis
    proof (cases r)
      case (Inl e)
      with Pair s' base show ?thesis
        by (auto simp: net_D_inputs_def logged_images_def intro!: exI[of _ "[Call_net_G (image_of b) (mask_of b)]"])
    next
      case (Inr views)
      show ?thesis
      proof (cases "append_pictures (sample_pictures (image_of b) views) [0..<length (image_of b)] cols")
        case (Inl e)
        with Pair Inr s' base show ?thesis
          by (auto simp: net_D_inputs_def logged_images_def intro!: exI[of _ "[Call_net_G (image_of b) (mask_of b)]"])
      next
        case (Inr cols')
        from Cons.IH[of ?s1 cols'] obtain evs where
          evs: "snd (visualize_batches env ?s1 bs cols') = ?s1\<lparr>trace := trace ?s1 @ evs\<rparr>"
            "net_D_inputs evs = []" "logged_images evs = []" by blast
        have "snd (visualize_batches env self (b # bs) cols) =
                self\<lparr>trace := trace self @ (Call_net_G (image_of b) (mask_of b) # evs)\<rparr>"
          using Pair \<open>r = Inr views\<close> Inr s' evs(1) by (simp add: emit_def)
        moreover have "net_D_inputs (Call_net_G (image_of b) (mask_of b) # evs) = []"
          using evs(2) by (simp add: net_D_inputs_def)
        moreover have "logged_images (Call_net_G (image_of b) (mask_of b) # evs) = []"
          using evs(3) by (simp add: logged_images_def)
        ultimately show ?thesis by blast
      qed
    qed
  qed
qed

lemma on_epoch_end_frame:
  "\<exists>evs. snd (on_epoch_end env self) = self\<lparr>trace := trace self @ evs\<rparr> \<and> net_D_inputs evs = []"
proof (cases "visualization_dataloader self")
  case None
  then show ?thesis
    by (intro exI[of _ "[]"]) (simp add: on_epoch_end_def net_D_inputs_def)
next
  case (Some loader)
  obtain evs where evs:
    "snd (visualize_batches env self (batches env loader) no_columns) = self\<lparr>trace := trace self @ evs\<rparr>"
    "net_D_inputs evs = []"
    using visualize_batches_frame by blast
  obtain r s1 where rs: "visualize_batches env self (batches env loader) no_columns = (r, s1)"
    by (cases "visualize_batches env self (batches env loader) no_columns")
  with evs have s1: "s1 = self\<lparr>trace := trace self @ evs\<rparr>" by simp
  have "snd (on_epoch_end env self) = s1 \<or>
        (\<exists>g. snd (on_epoch_end env self) = emit (Log_image (global_step s1) g) s1)"
    using Some rs
    by (auto simp: on_epoch_end_def raising_def split: sum.splits)
  then show ?thesis
  proof
    assume "snd (on_epoch_end env self) = s1"
    with s1 evs(2) show ?thesis by blast
  next
    assume "\<exists>g. snd (on_epoch_end env self) = emit (Log_image (global_step s1) g) s1"
    then obtain g where "snd (on_epoch_end env self) = emit (Log_image (global_step s1) g) s1" ..
    then have "snd (on_epoch_end env self) = self\<lparr>trace := trace self @ (evs @ [Log_image (global_step s1) g])\<rparr>"
      using s1 by (simp add: emit_def)
    moreover have "net_D_inputs (evs @ [Log_image (global_step s1) g]) = []"
      using evs(2) by (simp add: net_D_inputs_def)
    ultimately show ?thesis by blast
  qed
qed

lemma hparams_on_epoch_end: "hparams (snd (on_epoch_end env self)) = hparams self"
proof -
  obtain evs where "snd (on_epoch_end env self) = self\<lparr>trace := trace self @ evs\<rparr>"
    using on_epoch_end_frame by blast
  then show ?thesis by simp
qed

lemma patch_on_epoch_end:
  "generated_image_only_patch (snd (on_epoch_end env self)) = generated_image_only_patch self"
proof -
  obtain evs where "snd (on_epoch_end env self) = self\<lparr>trace := trace self @ evs\<rparr>"
    using on_epoch_end_frame by blast
  then show ?thesis by simp
qed

lemma hparams_perform: "hparams (perform env self c) = hparams self"
  by (cases c) (simp_all add: hparams_training_step hparams_on_epoch_end)

lemma hparams_calls: "hparams (foldl (perform env) self calls) = hparams self"
  by (induction calls arbitrary: self) (simp_all add: hparams_perform)

lemma patch_perform:
  "\<not> is_generator_step c \<Longrightarrow>
   generated_image_only_patch (perform env self c) = generated_image_only_patch self"
  by (cases c) (simp_all add: patch_training_step patch_on_epoch_end)

lemma patch_calls:
  "\<forall>c \<in> set calls. \<not> is_generator_step c \<Longrightarrow>
   generated_image_only_patch (foldl (perform env) self calls) = generated_image_only_patch self"
  by (induction calls arbitrary: self) (simp_all add: patch_perform)

section \<open>The claims\<close>

text \<open>
  C9. A call of \<open>training_step\<close> with an optimizer index other than 0 and 1 returns
  \<open>None\<close> and changes nothing but \<open>last_batch\<close>, which now holds the batch: no network and
  no loss is called and nothing is logged, since the trace is part of the object.
\<close>

theorem other_optimizer_idx_returns_None:
  assumes "optimizer_idx \<noteq> 0" and "optimizer_idx \<noteq> 1"
  shows "training_step env self batch batch_idx optimizer_idx =
           (Inr None, self\<lparr>last_batch := Some batch\<rparr>)"
  using assms by (simp add: training_step_def)

theorem other_optimizer_idx_returns_None_witness:
  "(2::int) \<noteq> 0 \<and> (2::int) \<noteq> 1 \<and>
   training_step env0 (DeepFillV2 env0 args0) batch0 7 2 =
     (Inr None, (DeepFillV2 env0 args0)\<lparr>last_batch := Some batch0\<rparr>)"
  using other_optimizer_idx_returns_None [of 2 env0 "DeepFillV2 env0 args0" batch0 7]
  by simp

text \<open>
  C5. The constructor stores the argument record as the hyperparameters, and after any
  sequence of calls of \<open>training_step\<close> (with any optimizer index), \<open>configure_optimizers\<close>
  and \<open>on_epoch_end\<close>, raising or not, the hyperparameters are still that record.
\<close>

theorem hparams_never_mutated:
  "hparams (DeepFillV2 env args) = args \<and>
   hparams (foldl (perform env) (DeepFillV2 env args) calls) = args"
proof -
  have "hparams (DeepFillV2 env args) = args"
    by (simp add: DeepFillV2_def)
  then show ?thesis by (simp add: hparams_calls)
qed

theorem hparams_never_mutated_witness:
  "hparams (foldl (perform env0) (DeepFillV2 env0 args0)
      [Training_step batch0 0 0, Training_step batch0 0 1, Configure_optimizers,
       Training_step batch0 1 2, On_epoch_end]) = args0"
  using hparams_never_mutated [of env0 args0
      "[Training_step batch0 0 0, Training_step batch0 0 1, Configure_optimizers,
        Training_step batch0 1 2, On_epoch_end]"]
  by simp

subsection \<open>The inputs of the discriminator in a step\<close>

lemma new_events_append [simp]:
  "new_events self (s\<lparr>trace := trace self @ evs\<rparr>) = evs"
  by (simp add: new_events_def)

lemma new_events_same [simp]:
  "trace s = trace self \<Longrightarrow> new_events self s = []"
  by (simp add: new_events_def)

lemma new_events_last_batch [simp]:
  "new_events self s = new_events (self\<lparr>last_batch := b\<rparr>) s"
  by (simp add: new_events_def)

lemma generator_step_D_inputs:
  "net_D_inputs (new_events self (snd (generator_step env self img msk))) =
     (case G_forward env (net_G self) img msk of
        Inl e \<Rightarrow> []
      | Inr (coarse_image, refined_image) \<Rightarrow>
          (case recon_forward env (recon_loss self) img coarse_image refined_image msk of
             Inl e \<Rightarrow> []
           | Inr rl \<Rightarrow>
               (case blend refined_image img msk of
                  Inl e \<Rightarrow> []
                | Inr completed_image \<Rightarrow>
                    (case cat_dim1 completed_image msk of
                       Inl e \<Rightarrow> []
                     | Inr d_in \<Rightarrow> [d_in]))))"
  unfolding generator_step_def Let_def
  by (auto simp: emit_def raising_def new_events_def net_D_inputs_def split: sum.splits prod.splits)

lemma discriminator_step_D_inputs:
  "net_D_inputs (new_events self (snd (discriminator_step env self img msk))) =
     (case cat_dim1 img msk of
        Inl e \<Rightarrow> []
      | Inr real_in \<Rightarrow>
          real_in #
          (case D_forward env (net_D self) real_in of
             Inl e \<Rightarrow> []
           | Inr d_real \<Rightarrow>
               (case generated_image_only_patch self of
                  None \<Rightarrow> []
                | Some patch \<Rightarrow>
                    (case cat_dim1 (detach patch) msk of
                       Inl e \<Rightarrow> []
                     | Inr fake_in \<Rightarrow> [fake_in]))))"
  unfolding discriminator_step_def Let_def
  by (auto simp: emit_def raising_def new_events_def net_D_inputs_def split: sum.splits option.splits)

lemma training_step_D_inputs_0:
  "net_D_inputs (new_events self (snd (training_step env self batch batch_idx 0))) =
   net_D_inputs (new_events (self\<lparr>last_batch := Some batch\<rparr>)
     (snd (generator_step env (self\<lparr>last_batch := Some batch\<rparr>) (image_of batch) (mask_of batch))))"
  by (simp add: training_step_def Let_def new_events_def)

lemma training_step_D_inputs_1:
  "net_D_inputs (new_events self (snd (training_step env self batch batch_idx 1))) =
   net_D_inputs (new_events (self\<lparr>last_batch := Some batch\<rparr>)
     (snd (discriminator_step env (self\<lparr>last_batch := Some batch\<rparr>) (image_of batch) (mask_of batch))))"
  by (simp add: training_step_def Let_def new_events_def)

lemma cat_dim1_Inr:
  "cat_dim1 x m = Inr t \<Longrightarrow>
     length x = length m \<and> length t = length m \<and> (\<forall>n < length m. t ! n = x ! n @ m ! n)"
  by (auto simp: cat_dim1_def cat_ok_def split: if_splits)

lemma fst_eq_iff: "fst p = a \<longleftrightarrow> (\<exists>b. p = (a, b))"
  by (cases p) simp

lemma mean_Inr: "mean xs = Inr m \<longleftrightarrow> xs \<noteq> [] \<and> m = sum_list xs / real (length xs)"
  by (auto simp: mean_def)

lemma hinge_nonneg: "0 \<le> sum_list (map (\<lambda>x. max 0 (f x)) (xs::real list)) / real (length xs)"
proof -
  have "0 \<le> sum_list (map (\<lambda>x. max 0 (f x)) xs)"
    by (rule sum_list_nonneg) auto
  then show ?thesis by simp
qed

lemma hinge_zero_iff:
  "xs \<noteq> [] \<Longrightarrow>
   sum_list (map (\<lambda>x. max 0 (f x)) (xs::real list)) / real (length xs) = 0 \<longleftrightarrow> (\<forall>x \<in> set xs. f x \<le> 0)"
proof -
  assume "xs \<noteq> []"
  then have "sum_list (map (\<lambda>x. max 0 (f x)) xs) / real (length xs) = 0 \<longleftrightarrow>
               sum_list (map (\<lambda>x. max 0 (f x)) xs) = 0"
    by simp
  also have "\<dots> \<longleftrightarrow> (\<forall>y \<in> set (map (\<lambda>x. max 0 (f x)) xs). y = 0)"
    by (rule sum_list_nonneg_eq_0_iff) auto
  also have "\<dots> \<longleftrightarrow> (\<forall>x \<in> set xs. max 0 (f x) = 0)"
    by simp
  also have "\<dots> \<longleftrightarrow> (\<forall>x \<in> set xs. f x \<le> 0)"
    by (intro ball_cong refl) (auto simp: max_def)
  finally show ?thesis .
qed

text \<open>
  C2. With optimizer index 0 the step returns a loss exactly when the generator, the
  reconstruction loss, the blending, the concatenation with the mask and the
  discriminator succeed and the discriminator gives at least one score; the loss is then
  the adversarial loss, minus \<open>gen_loss_alpha\<close> times the mean score of the completed image
  concatenated with the mask, plus the reconstruction loss of image, coarse output,
  refined output and mask. The optimizer index selects the step: 0, the position of the
  generator's optimizer in the list that \<open>configure_optimizers\<close> returns, the generator's
  step, and 1, the position of the discriminator's optimizer, the discriminator's.
\<close>

theorem generator_loss_is_adversarial_plus_reconstruction:
  "(fst (training_step env self batch batch_idx 0) = Inr r \<longleftrightarrow>
     (\<exists>coarse_image refined_image reconstruction_loss completed_image d_in d_fake.
        G_forward env (net_G self) (image_of batch) (mask_of batch) = Inr (coarse_image, refined_image) \<and>
        recon_forward env (recon_loss self) (image_of batch) coarse_image refined_image (mask_of batch)
          = Inr reconstruction_loss \<and>
        blend refined_image (image_of batch) (mask_of batch) = Inr completed_image \<and>
        cat_dim1 completed_image (mask_of batch) = Inr d_in \<and>
        D_forward env (net_D self) d_in = Inr d_fake \<and>
        d_fake \<noteq> [] \<and>
        r = Some \<lparr>loss = - gen_loss_alpha (hparams self) * (sum_list d_fake / real (length d_fake))
                          + reconstruction_loss,
                   progress_bar =
                     [(''gen_loss'', - gen_loss_alpha (hparams self) * (sum_list d_fake / real (length d_fake))),
                      (''recon_loss'', reconstruction_loss)]\<rparr>))
   \<and> training_step env self batch batch_idx 0 =
       generator_step env (self\<lparr>last_batch := Some batch\<rparr>) (image_of batch) (mask_of batch)
   \<and> training_step env self batch batch_idx 1 =
       discriminator_step env (self\<lparr>last_batch := Some batch\<rparr>) (image_of batch) (mask_of batch)
   \<and> (configure_optimizers self = Inr (optimizers, schedulers) \<longrightarrow>
        length optimizers = 2 \<and>
        opt_params (optimizers ! 0) = net_G self \<and>
        opt_params (optimizers ! 1) = net_D self)"
proof (intro conjI impI)
  show "fst (training_step env self batch batch_idx 0) = Inr r \<longleftrightarrow>
     (\<exists>coarse_image refined_image reconstruction_loss completed_image d_in d_fake.
        G_forward env (net_G self) (image_of batch) (mask_of batch) = Inr (coarse_image, refined_image) \<and>
        recon_forward env (recon_loss self) (image_of batch) coarse_image refined_image (mask_of batch)
          = Inr reconstruction_loss \<and>
        blend refined_image (image_of batch) (mask_of batch) = Inr completed_image \<and>
        cat_dim1 completed_image (mask_of batch) = Inr d_in \<and>
        D_forward env (net_D self) d_in = Inr d_fake \<and>
        d_fake \<noteq> [] \<and>
        r = Some \<lparr>loss = - gen_loss_alpha (hparams self) * (sum_list d_fake / real (length d_fake))
                          + reconstruction_loss,
                   progress_bar =
                     [(''gen_loss'', - gen_loss_alpha (hparams self) * (sum_list d_fake / real (length d_fake))),
                      (''recon_loss'', reconstruction_loss)]\<rparr>)"
    by (simp add: training_step_def Let_def fst_eq_iff generator_step_Inr mean_Inr) blast
  show "training_step env self batch batch_idx 0 =
       generator_step env (self\<lparr>last_batch := Some batch\<rparr>) (image_of batch) (mask_of batch)"
    by (simp add: training_step_def Let_def)
  show "training_step env self batch batch_idx 1 =
       discriminator_step env (self\<lparr>last_batch := Some batch\<rparr>) (image_of batch) (mask_of batch)"
    by (simp add: training_step_def Let_def)
next
  assume "configure_optimizers self = Inr (optimizers, schedulers)"
  then have "optimizers = [Adam (net_G self) (lr (hparams self)) (weight_decay (hparams self)),
                       Adam (net_D self) (4 * lr (hparams self)) (weight_decay (hparams self))]"
    by (auto simp: configure_optimizers_def new_Adam_def Let_def bindE_eq_Inr split: if_splits)
  then show "length optimizers = 2" "opt_params (optimizers ! 0) = net_G self"
    "opt_params (optimizers ! 1) = net_D self"
    by simp_all
qed


theorem generator_loss_is_adversarial_plus_reconstruction_witness:
  "fst (training_step env0 model0 batch0 0 0) =
     Inr (Some \<lparr>loss = 68773 / 32000,
                 progress_bar = [(''gen_loss'', - (27 / 32000)), (''recon_loss'', 43 / 20)]\<rparr>)"
proof -
  have "G_forward env0 (net_G model0) (image_of batch0) (mask_of batch0) =
          Inr ([[[[0, 0]], [[0, 0]], [[0, 0]]]], [[[[3 / 2, 0]], [[1, 2]], [[3, 5 / 4]]]])"
    by code_simp
  moreover have "recon_forward env0 (recon_loss model0) (image_of batch0)
          [[[[0, 0]], [[0, 0]], [[0, 0]]]] [[[[3 / 2, 0]], [[1, 2]], [[3, 5 / 4]]]] (mask_of batch0)
          = Inr (43 / 20)"
    by code_simp
  moreover have "blend [[[[3 / 2, 0]], [[1, 2]], [[3, 5 / 4]]]] (image_of batch0) (mask_of batch0)
          = Inr [[[[1 / 2, 0]], [[0, 2]], [[2, 5 / 4]]]]"
    by code_simp
  moreover have "cat_dim1 [[[[1 / 2, 0]], [[0, 2]], [[2, 5 / 4]]]] (mask_of batch0)
          = Inr [[[[1 / 2, 0]], [[0, 2]], [[2, 5 / 4]], [[0, 1]]]]"
    by code_simp
  moreover have "D_forward env0 (net_D model0) [[[[1 / 2, 0]], [[0, 2]], [[2, 5 / 4]], [[0, 1]]]]
          = Inr [1 / 2, 0, 0, 2, 2, 5 / 4, 0, 1]"
    by code_simp
  moreover have "[1 / 2, 0, 0, 2, 2, 5 / 4, 0, 1 :: real] \<noteq> []"
    by simp
  moreover have "Some \<lparr>loss = 68773 / 32000,
                 progress_bar = [(''gen_loss'', - (27 / 32000)), (''recon_loss'', 43 / 20)]\<rparr> =
     Some \<lparr>loss = - gen_loss_alpha (hparams model0) *
                    (sum_list [1 / 2, 0, 0, 2, 2, 5 / 4, 0, 1] / real (length [1 / 2, 0, 0, 2, 2, 5 / 4, 0, 1 :: real]))
                          + 43 / 20,
                   progress_bar =
                     [(''gen_loss'', - gen_loss_alpha (hparams model0) *
                         (sum_list [1 / 2, 0, 0, 2, 2, 5 / 4, 0, 1] / real (length [1 / 2, 0, 0, 2, 2, 5 / 4, 0, 1 :: real]))),
                      (''recon_loss'', 43 / 20)]\<rparr>"
    by code_simp
  ultimately show ?thesis
    using generator_loss_is_adversarial_plus_reconstruction [of env0 model0 batch0 0
      "Some \<lparr>loss = 68773 / 32000,
                 progress_bar = [(''gen_loss'', - (27 / 32000)), (''recon_loss'', 43 / 20)]\<rparr>",
      THEN conjunct1]
    by blast
qed

lemma mean_relu_Inr:
  "mean (relu (map f xs)) = Inr m \<longleftrightarrow> xs \<noteq> [] \<and> m = hinge_mean f xs"
  by (auto simp: mean_def relu_def hinge_mean_def comp_def)

lemma hinge_mean_nonneg: "0 \<le> hinge_mean f xs"
  unfolding hinge_mean_def by (rule hinge_nonneg)

lemma hinge_mean_zero_iff: "xs \<noteq> [] \<Longrightarrow> hinge_mean f xs = 0 \<longleftrightarrow> (\<forall>x \<in> set xs. f x \<le> 0)"
  unfolding hinge_mean_def by (rule hinge_zero_iff)

text \<open>
  C3. With optimizer index 1 the step returns a loss exactly when both passes through
  the discriminator succeed with at least one score each; the loss is then
  \<open>disc_loss_alpha\<close> times the sum of the mean of \<open>relu (1 - score)\<close> over the scores of the
  real image with the mask and the mean of \<open>relu (1 + score)\<close> over the scores of the
  detached completed image with the mask. Both means are never negative; the real one
  vanishes exactly when every score is at least 1, the fake one exactly when every score
  is at most -1.
\<close>

theorem discriminator_loss_is_hinge:
  "(fst (training_step env self batch batch_idx 1) = Inr r \<longleftrightarrow>
     (\<exists>real_in d_real patch fake_in d_fake.
        cat_dim1 (image_of batch) (mask_of batch) = Inr real_in \<and>
        D_forward env (net_D self) real_in = Inr d_real \<and>
        generated_image_only_patch self = Some patch \<and>
        cat_dim1 (detach patch) (mask_of batch) = Inr fake_in \<and>
        D_forward env (net_D self) fake_in = Inr d_fake \<and>
        d_real \<noteq> [] \<and> d_fake \<noteq> [] \<and>
        r = Some \<lparr>loss = disc_loss_alpha (hparams self) *
                            (hinge_mean (\<lambda>x. 1 - x) d_real + hinge_mean (\<lambda>x. 1 + x) d_fake),
                   progress_bar =
                     [(''d_real_loss'', hinge_mean (\<lambda>x. 1 - x) d_real),
                      (''d_fake_loss'', hinge_mean (\<lambda>x. 1 + x) d_fake)]\<rparr>))
   \<and> 0 \<le> hinge_mean (\<lambda>x. 1 - x) d \<and> 0 \<le> hinge_mean (\<lambda>x. 1 + x) d
   \<and> (d \<noteq> [] \<longrightarrow>
        (hinge_mean (\<lambda>x. 1 - x) d = 0 \<longleftrightarrow> (\<forall>x \<in> set d. 1 \<le> x)) \<and>
        (hinge_mean (\<lambda>x. 1 + x) d = 0 \<longleftrightarrow> (\<forall>x \<in> set d. x \<le> - 1)))"
proof -
  have "fst (training_step env self batch batch_idx 1) = Inr r \<longleftrightarrow>
     (\<exists>real_in d_real patch fake_in d_fake.
        cat_dim1 (image_of batch) (mask_of batch) = Inr real_in \<and>
        D_forward env (net_D self) real_in = Inr d_real \<and>
        generated_image_only_patch self = Some patch \<and>
        cat_dim1 (detach patch) (mask_of batch) = Inr fake_in \<and>
        D_forward env (net_D self) fake_in = Inr d_fake \<and>
        d_real \<noteq> [] \<and> d_fake \<noteq> [] \<and>
        r = Some \<lparr>loss = disc_loss_alpha (hparams self) *
                            (hinge_mean (\<lambda>x. 1 - x) d_real + hinge_mean (\<lambda>x. 1 + x) d_fake),
                   progress_bar =
                     [(''d_real_loss'', hinge_mean (\<lambda>x. 1 - x) d_real),
                      (''d_fake_loss'', hinge_mean (\<lambda>x. 1 + x) d_fake)]\<rparr>)"
    by (simp add: training_step_def Let_def fst_eq_iff discriminator_step_Inr mean_relu_Inr) blast
  moreover have "d \<noteq> [] \<longrightarrow>
        (hinge_mean (\<lambda>x. 1 - x) d = 0 \<longleftrightarrow> (\<forall>x \<in> set d. 1 \<le> x)) \<and>
        (hinge_mean (\<lambda>x. 1 + x) d = 0 \<longleftrightarrow> (\<forall>x \<in> set d. x \<le> - 1))"
  proof
    assume d: "d \<noteq> []"
    have "(\<forall>x \<in> set d. 1 - x \<le> 0) \<longleftrightarrow> (\<forall>x \<in> set d. 1 \<le> x)" by simp
    moreover have "(\<forall>x \<in> set d. 1 + x \<le> 0) \<longleftrightarrow> (\<forall>x \<in> set d. x \<le> - 1)"
      by (intro ball_cong refl) linarith
    ultimately show "(hinge_mean (\<lambda>x. 1 - x) d = 0 \<longleftrightarrow> (\<forall>x \<in> set d. 1 \<le> x)) \<and>
        (hinge_mean (\<lambda>x. 1 + x) d = 0 \<longleftrightarrow> (\<forall>x \<in> set d. x \<le> - 1))"
      using d by (simp add: hinge_mean_zero_iff)
  qed
  ultimately show ?thesis
    using hinge_mean_nonneg by blast
qed

theorem discriminator_loss_is_hinge_witness:
  "fst (training_step env0 model1 batch0 0 1) =
     Inr (Some \<lparr>loss = 5 / 2,
                 progress_bar = [(''d_real_loss'', 21 / 32), (''d_fake_loss'', 59 / 32)]\<rparr>)
   \<and> hinge_mean (\<lambda>x. 1 - x) [1, 3 / 2] = 0
   \<and> hinge_mean (\<lambda>x. 1 + x) [- 1, - 2] = 0"
proof -
  have "cat_dim1 (image_of batch0) (mask_of batch0) =
          Inr [[[[1 / 2, - 1]], [[0, 1]], [[2, 1 / 4]], [[0, 1]]]]"
    by code_simp
  moreover have "D_forward env0 (net_D model1) [[[[1 / 2, - 1]], [[0, 1]], [[2, 1 / 4]], [[0, 1]]]]
          = Inr [1 / 2, - 1, 0, 1, 2, 1 / 4, 0, 1]"
    by code_simp
  moreover have "generated_image_only_patch model1 = Some [[[[1 / 2, 0]], [[0, 2]], [[2, 5 / 4]]]]"
    by code_simp
  moreover have "cat_dim1 (detach [[[[1 / 2, 0]], [[0, 2]], [[2, 5 / 4]]]]) (mask_of batch0)
          = Inr [[[[1 / 2, 0]], [[0, 2]], [[2, 5 / 4]], [[0, 1]]]]"
    by code_simp
  moreover have "D_forward env0 (net_D model1) [[[[1 / 2, 0]], [[0, 2]], [[2, 5 / 4]], [[0, 1]]]]
          = Inr [1 / 2, 0, 0, 2, 2, 5 / 4, 0, 1]"
    by code_simp
  moreover have "[1 / 2, - 1, 0, 1, 2, 1 / 4, 0, 1 :: real] \<noteq> []"
    and "[1 / 2, 0, 0, 2, 2, 5 / 4, 0, 1 :: real] \<noteq> []"
    by simp_all
  moreover have "Some \<lparr>loss = 5 / 2,
                 progress_bar = [(''d_real_loss'', 21 / 32), (''d_fake_loss'', 59 / 32)]\<rparr> =
     Some \<lparr>loss = disc_loss_alpha (hparams model1) *
                     (hinge_mean (\<lambda>x. 1 - x) [1 / 2, - 1, 0, 1, 2, 1 / 4, 0, 1] +
                      hinge_mean (\<lambda>x. 1 + x) [1 / 2, 0, 0, 2, 2, 5 / 4, 0, 1]),
            progress_bar =
              [(''d_real_loss'', hinge_mean (\<lambda>x. 1 - x) [1 / 2, - 1, 0, 1, 2, 1 / 4, 0, 1]),
               (''d_fake_loss'', hinge_mean (\<lambda>x. 1 + x) [1 / 2, 0, 0, 2, 2, 5 / 4, 0, 1])]\<rparr>"
    by code_simp
  ultimately have "fst (training_step env0 model1 batch0 0 1) =
     Inr (Some \<lparr>loss = 5 / 2,
                 progress_bar = [(''d_real_loss'', 21 / 32), (''d_fake_loss'', 59 / 32)]\<rparr>)"
    using discriminator_loss_is_hinge [of env0 model1 batch0 0
      "Some \<lparr>loss = 5 / 2,
                 progress_bar = [(''d_real_loss'', 21 / 32), (''d_fake_loss'', 59 / 32)]\<rparr>"]
    by blast
  moreover have "hinge_mean (\<lambda>x. 1 - x) [1, 3 / 2] = 0"
    using discriminator_loss_is_hinge [of env0 model1 batch0 0 None "[1, 3 / 2]"] by simp
  moreover have "hinge_mean (\<lambda>x. 1 + x) [- 1, - 2] = 0"
    using discriminator_loss_is_hinge [of env0 model1 batch0 0 None "[- 1, - 2]"] by simp
  ultimately show ?thesis by blast
qed

lemma generator_step_patch:
  "generated_image_only_patch (snd (generator_step env self img msk)) =
     (case G_forward env (net_G self) img msk of
        Inl e \<Rightarrow> generated_image_only_patch self
      | Inr (coarse_image, refined_image) \<Rightarrow>
          (case recon_forward env (recon_loss self) img coarse_image refined_image msk of
             Inl e \<Rightarrow> generated_image_only_patch self
           | Inr rl \<Rightarrow>
               (case blend refined_image img msk of
                  Inl e \<Rightarrow> generated_image_only_patch self
                | Inr completed_image \<Rightarrow> Some completed_image)))"
  unfolding generator_step_def Let_def
  by (auto simp: raising_def split: sum.splits prod.splits)

lemma training_step_patch_0:
  "fst (training_step env self batch batch_idx 0) = Inr r \<Longrightarrow>
   \<exists>coarse_image refined_image completed_image d_in.
     G_forward env (net_G self) (image_of batch) (mask_of batch) = Inr (coarse_image, refined_image) \<and>
     blend refined_image (image_of batch) (mask_of batch) = Inr completed_image \<and>
     cat_dim1 completed_image (mask_of batch) = Inr d_in \<and>
     generated_image_only_patch (snd (training_step env self batch batch_idx 0)) = Some completed_image \<and>
     net_D (snd (training_step env self batch batch_idx 0)) = net_D self \<and>
     net_D_inputs (new_events self (snd (training_step env self batch batch_idx 0))) = [d_in]"
proof -
  assume "fst (training_step env self batch batch_idx 0) = Inr r"
  then obtain s' where s': "generator_step env (self\<lparr>last_batch := Some batch\<rparr>) (image_of batch) (mask_of batch) = (Inr r, s')"
    by (auto simp: training_step_def Let_def fst_eq_iff)
  then have ts: "training_step env self batch batch_idx 0 = (Inr r, s')"
    by (simp add: training_step_def Let_def)
  from s' show ?thesis
    unfolding ts generator_step_Inr
    by (auto simp: new_events_def net_D_inputs_def)
qed

text \<open>
  C4. Every tensor a training step passes to the discriminator is a concatenation
  along the channels of some tensor with the mask of the batch: each of its samples is
  the channels of that tensor followed by those of the mask. A generator step that
  returns has made one such call, on the completed image; a discriminator step that
  returns has made two, on the image and on the detached completed image that the
  object holds. The visualization at the end of an epoch never calls the discriminator.
\<close>

theorem discriminator_always_sees_mask:
  "(\<forall>t \<in> set (net_D_inputs (new_events self (snd (training_step env self batch batch_idx optimizer_idx)))).
      \<exists>x. cat_dim1 x (mask_of batch) = Inr t \<and>
          length t = length (mask_of batch) \<and>
          (\<forall>n < length (mask_of batch). t ! n = x ! n @ mask_of batch ! n) \<and>
          (x = image_of batch \<or>
           (\<exists>patch. generated_image_only_patch (snd (training_step env self batch batch_idx optimizer_idx))
                      = Some patch \<and> x = detach patch)))
   \<and> (fst (training_step env self batch batch_idx 0) = Inr r \<longrightarrow>
        (\<exists>completed_image t.
           generated_image_only_patch (snd (training_step env self batch batch_idx 0)) = Some completed_image \<and>
           cat_dim1 completed_image (mask_of batch) = Inr t \<and>
           net_D_inputs (new_events self (snd (training_step env self batch batch_idx 0))) = [t]))
   \<and> (fst (training_step env self batch batch_idx 1) = Inr r \<longrightarrow>
        (\<exists>patch t1 t2.
           generated_image_only_patch self = Some patch \<and>
           cat_dim1 (image_of batch) (mask_of batch) = Inr t1 \<and>
           cat_dim1 (detach patch) (mask_of batch) = Inr t2 \<and>
           net_D_inputs (new_events self (snd (training_step env self batch batch_idx 1))) = [t1, t2]))
   \<and> net_D_inputs (new_events self (snd (on_epoch_end env self))) = []"
proof (intro conjI ballI impI)
  fix t
  assume t: "t \<in> set (net_D_inputs (new_events self (snd (training_step env self batch batch_idx optimizer_idx))))"
  let ?after = "snd (training_step env self batch batch_idx optimizer_idx)"
  have "\<exists>x. cat_dim1 x (mask_of batch) = Inr t \<and>
          (x = image_of batch \<or> (\<exists>patch. generated_image_only_patch ?after = Some patch \<and> x = detach patch))"
  proof (cases "optimizer_idx = 0")
    case True
    have after: "generated_image_only_patch ?after =
        generated_image_only_patch (snd (generator_step env (self\<lparr>last_batch := Some batch\<rparr>)
           (image_of batch) (mask_of batch)))"
      by (simp add: True training_step_def Let_def)
    from t show ?thesis
      unfolding after generator_step_patch
      unfolding True training_step_D_inputs_0 generator_step_D_inputs
      by (auto simp: detach_def split: sum.splits prod.splits)
  next
    case False
    show ?thesis
    proof (cases "optimizer_idx = 1")
      case True
      have after: "generated_image_only_patch ?after = generated_image_only_patch self"
        using patch_training_step[OF False] by simp
      from t show ?thesis
        unfolding after
        unfolding True training_step_D_inputs_1 discriminator_step_D_inputs
        by (auto split: sum.splits option.splits) metis
    next
      case False
      with \<open>optimizer_idx \<noteq> 0\<close> t show ?thesis
        by (simp add: training_step_def net_D_inputs_def)
    qed
  qed
  then obtain x where x: "cat_dim1 x (mask_of batch) = Inr t"
    and x': "x = image_of batch \<or> (\<exists>patch. generated_image_only_patch ?after = Some patch \<and> x = detach patch)"
    by blast
  with cat_dim1_Inr[OF x]
  show "\<exists>x. cat_dim1 x (mask_of batch) = Inr t \<and>
          length t = length (mask_of batch) \<and>
          (\<forall>n < length (mask_of batch). t ! n = x ! n @ mask_of batch ! n) \<and>
          (x = image_of batch \<or>
           (\<exists>patch. generated_image_only_patch (snd (training_step env self batch batch_idx optimizer_idx))
                      = Some patch \<and> x = detach patch))"
    by blast
next
  assume "fst (training_step env self batch batch_idx 0) = Inr r"
  from training_step_patch_0[OF this]
  show "\<exists>completed_image t.
           generated_image_only_patch (snd (training_step env self batch batch_idx 0)) = Some completed_image \<and>
           cat_dim1 completed_image (mask_of batch) = Inr t \<and>
           net_D_inputs (new_events self (snd (training_step env self batch batch_idx 0))) = [t]"
    by blast
next
  assume "fst (training_step env self batch batch_idx 1) = Inr r"
  then obtain s' where "discriminator_step env (self\<lparr>last_batch := Some batch\<rparr>) (image_of batch) (mask_of batch) = (Inr r, s')"
    by (auto simp: training_step_def Let_def fst_eq_iff)
  then show "\<exists>patch t1 t2.
           generated_image_only_patch self = Some patch \<and>
           cat_dim1 (image_of batch) (mask_of batch) = Inr t1 \<and>
           cat_dim1 (detach patch) (mask_of batch) = Inr t2 \<and>
           net_D_inputs (new_events self (snd (training_step env self batch batch_idx 1))) = [t1, t2]"
    unfolding training_step_D_inputs_1 discriminator_step_D_inputs discriminator_step_Inr
    by auto
next
  obtain evs where "snd (on_epoch_end env self) = self\<lparr>trace := trace self @ evs\<rparr>" "net_D_inputs evs = []"
    using on_epoch_end_frame by blast
  then show "net_D_inputs (new_events self (snd (on_epoch_end env self))) = []"
    by simp
qed

theorem discriminator_always_sees_mask_witness:
  "fst (training_step env0 model0 batch0 0 0) =
     Inr (Some \<lparr>loss = 68773 / 32000,
                 progress_bar = [(''gen_loss'', - (27 / 32000)), (''recon_loss'', 43 / 20)]\<rparr>)
   \<and> net_D_inputs (new_events model0 (snd (training_step env0 model0 batch0 0 0))) =
       [[[[[1 / 2, 0]], [[0, 2]], [[2, 5 / 4]], [[0, 1]]]]]
   \<and> [[[[1 / 2, 0]], [[0, 2]], [[2, 5 / 4]], [[0, 1]]]] \<in>
       set (net_D_inputs (new_events model0 (snd (training_step env0 model0 batch0 0 0))))
   \<and> (\<exists>x. cat_dim1 x (mask_of batch0) = Inr [[[[1 / 2, 0]], [[0, 2]], [[2, 5 / 4]], [[0, 1]]]])"
proof -
  have a: "fst (training_step env0 model0 batch0 0 0) =
     Inr (Some \<lparr>loss = 68773 / 32000,
                 progress_bar = [(''gen_loss'', - (27 / 32000)), (''recon_loss'', 43 / 20)]\<rparr>)"
    by code_simp
  have b: "net_D_inputs (new_events model0 (snd (training_step env0 model0 batch0 0 0))) =
       [[[[[1 / 2, 0]], [[0, 2]], [[2, 5 / 4]], [[0, 1]]]]]"
    by code_simp
  then have c: "[[[[1 / 2, 0]], [[0, 2]], [[2, 5 / 4]], [[0, 1]]]] \<in>
       set (net_D_inputs (new_events model0 (snd (training_step env0 model0 batch0 0 0))))"
    by simp
  from c discriminator_always_sees_mask [of model0 env0 batch0 0 0]
  have "\<exists>x. cat_dim1 x (mask_of batch0) = Inr [[[[1 / 2, 0]], [[0, 2]], [[2, 5 / 4]], [[0, 1]]]]"
    by blast
  with a b c show ?thesis by blast
qed

text \<open>
  C6. The claim gives both optimizers the learning rate of the arguments; the
  discriminator's optimizer is constructed with four times that rate. What holds: when
  \<open>configure_optimizers\<close> returns, it returns exactly two Adam optimizers and no scheduler,
  the first over the generator's parameters with the learning rate of the
  hyperparameters, the second over the discriminator's parameters with four times that
  learning rate, both with the weight decay of the hyperparameters.
\<close>

theorem configure_optimizers_two_Adam:
  assumes "configure_optimizers self = Inr (optimizers, schedulers)"
  shows "optimizers = [Adam (net_G self) (lr (hparams self)) (weight_decay (hparams self)),
                       Adam (net_D self) (4 * lr (hparams self)) (weight_decay (hparams self))]
         \<and> schedulers = []"
  using assms
  by (auto simp: configure_optimizers_def new_Adam_def Let_def bindE_eq_Inr split: if_splits)

theorem configure_optimizers_two_Adam_witness:
  "configure_optimizers model0 = Inr ([Adam [1] (1 / 10000) 0, Adam [2] (4 / 10000) 0], [])
   \<and> [Adam [1] (1 / 10000) 0, Adam [2] (4 / 10000) 0] =
       [Adam (net_G model0) (lr (hparams model0)) (weight_decay (hparams model0)),
        Adam (net_D model0) (4 * lr (hparams model0)) (weight_decay (hparams model0))]"
proof -
  have h: "configure_optimizers model0 = Inr ([Adam [1] (1 / 10000) 0, Adam [2] (4 / 10000) 0], [])"
    by code_simp
  from configure_optimizers_two_Adam [OF h] h show ?thesis by simp
qed

theorem discriminator_lr_counterexample:
  "configure_optimizers (DeepFillV2 env0 args0) =
     Inr ([Adam [1] (1 / 10000) 0, Adam [2] (4 / 10000) 0], [])
   \<and> lr args0 = 1 / 10000
   \<and> opt_lr (Adam [2] (4 / 10000) 0) \<noteq> lr args0"
  by code_simp

text \<open>
  C10. A new module holds no completed image, and no call other than a generator step
  stores one: after any sequence of calls without a generator step the discriminator
  step raises, and it raises the AttributeError of the missing \<open>detach\<close> whenever its pass
  on the real image went through. After a generator step that returned, the object
  holds that step's completed image, and a discriminator step whose real pass goes
  through calls the discriminator a second time on that image, detached, concatenated
  with the mask of its own batch; on the batch of the generator step this
  concatenation is the tensor the generator step gave to the discriminator.
\<close>

theorem discriminator_step_needs_generator_step:
  "generated_image_only_patch (DeepFillV2 env args) = None
   \<and> ((\<forall>c \<in> set calls. \<not> is_generator_step c) \<longrightarrow>
        generated_image_only_patch (foldl (perform env) (DeepFillV2 env args) calls) = None \<and>
        (\<exists>e. fst (training_step env (foldl (perform env) (DeepFillV2 env args) calls) batch batch_idx 1) = Inl e) \<and>
        (\<forall>real_in d_real.
           cat_dim1 (image_of batch) (mask_of batch) = Inr real_in \<and>
           D_forward env (net_D (foldl (perform env) (DeepFillV2 env args) calls)) real_in = Inr d_real \<longrightarrow>
           fst (training_step env (foldl (perform env) (DeepFillV2 env args) calls) batch batch_idx 1)
             = Inl AttributeError))
   \<and> (training_step env self batch batch_idx 0 = (Inr r, self1) \<longrightarrow>
        (\<exists>coarse_image refined_image completed_image d_in.
           G_forward env (net_G self) (image_of batch) (mask_of batch) = Inr (coarse_image, refined_image) \<and>
           blend refined_image (image_of batch) (mask_of batch) = Inr completed_image \<and>
           generated_image_only_patch self1 = Some completed_image \<and>
           cat_dim1 (detach completed_image) (mask_of batch) = Inr d_in \<and>
           net_D_inputs (new_events self self1) = [d_in] \<and>
           (\<forall>batch2 idx2 real_in d_real fake_in.
              cat_dim1 (image_of batch2) (mask_of batch2) = Inr real_in \<and>
              D_forward env (net_D self1) real_in = Inr d_real \<and>
              cat_dim1 (detach completed_image) (mask_of batch2) = Inr fake_in \<longrightarrow>
              net_D_inputs (new_events self1 (snd (training_step env self1 batch2 idx2 1)))
                = [real_in, fake_in])))"
proof (intro conjI impI)
  show init: "generated_image_only_patch (DeepFillV2 env args) = None"
    by (simp add: DeepFillV2_def)
  {
    assume calls: "\<forall>c \<in> set calls. \<not> is_generator_step c"
    let ?s = "foldl (perform env) (DeepFillV2 env args) calls"
    show none: "generated_image_only_patch ?s = None"
      using patch_calls[OF calls] init by simp
    have step: "fst (training_step env ?s batch batch_idx 1) =
        fst (discriminator_step env (?s\<lparr>last_batch := Some batch\<rparr>) (image_of batch) (mask_of batch))"
      by (simp add: training_step_def Let_def)
    show "\<exists>e. fst (training_step env ?s batch batch_idx 1) = Inl e"
      unfolding step discriminator_step_def Let_def
      using none by (auto simp: raising_def split: sum.splits)
    show "\<forall>real_in d_real.
           cat_dim1 (image_of batch) (mask_of batch) = Inr real_in \<and>
           D_forward env (net_D ?s) real_in = Inr d_real \<longrightarrow>
           fst (training_step env ?s batch batch_idx 1) = Inl AttributeError"
      unfolding step discriminator_step_def Let_def
      using none by (auto simp: raising_def)
  }
  {
    assume ok: "training_step env self batch batch_idx 0 = (Inr r, self1)"
    then have f: "fst (training_step env self batch batch_idx 0) = Inr r"
      and s: "snd (training_step env self batch batch_idx 0) = self1" by simp_all
    from training_step_patch_0[OF f] obtain coarse_image refined_image completed_image d_in where
      g: "G_forward env (net_G self) (image_of batch) (mask_of batch) = Inr (coarse_image, refined_image)"
      and b: "blend refined_image (image_of batch) (mask_of batch) = Inr completed_image"
      and c: "cat_dim1 completed_image (mask_of batch) = Inr d_in"
      and p: "generated_image_only_patch self1 = Some completed_image"
      and d: "net_D_inputs (new_events self self1) = [d_in]"
      unfolding s by blast
    have "\<forall>batch2 idx2 real_in d_real fake_in.
              cat_dim1 (image_of batch2) (mask_of batch2) = Inr real_in \<and>
              D_forward env (net_D self1) real_in = Inr d_real \<and>
              cat_dim1 (detach completed_image) (mask_of batch2) = Inr fake_in \<longrightarrow>
              net_D_inputs (new_events self1 (snd (training_step env self1 batch2 idx2 1)))
                = [real_in, fake_in]"
      unfolding training_step_D_inputs_1 discriminator_step_D_inputs
      using p by auto
    with g b c p d
    show "\<exists>coarse_image refined_image completed_image d_in.
           G_forward env (net_G self) (image_of batch) (mask_of batch) = Inr (coarse_image, refined_image) \<and>
           blend refined_image (image_of batch) (mask_of batch) = Inr completed_image \<and>
           generated_image_only_patch self1 = Some completed_image \<and>
           cat_dim1 (detach completed_image) (mask_of batch) = Inr d_in \<and>
           net_D_inputs (new_events self self1) = [d_in] \<and>
           (\<forall>batch2 idx2 real_in d_real fake_in.
              cat_dim1 (image_of batch2) (mask_of batch2) = Inr real_in \<and>
              D_forward env (net_D self1) real_in = Inr d_real \<and>
              cat_dim1 (detach completed_image) (mask_of batch2) = Inr fake_in \<longrightarrow>
              net_D_inputs (new_events self1 (snd (training_step env self1 batch2 idx2 1)))
                = [real_in, fake_in])"
      unfolding detach_def by blast
  }
qed


theorem discriminator_step_needs_generator_step_witness:
  "generated_image_only_patch (DeepFillV2 env0 args0) = None
   \<and> fst (training_step env0
          (foldl (perform env0) (DeepFillV2 env0 args0) [Training_step batch0 0 1, On_epoch_end])
          batch0 0 1) = Inl AttributeError
   \<and> generated_image_only_patch model1 = Some [[[[1 / 2, 0]], [[0, 2]], [[2, 5 / 4]]]]
   \<and> net_D_inputs (new_events model1 (snd (training_step env0 model1 batch0 0 1))) =
       [[[[[1 / 2, - 1]], [[0, 1]], [[2, 1 / 4]], [[0, 1]]]],
        [[[[1 / 2, 0]], [[0, 2]], [[2, 5 / 4]], [[0, 1]]]]]"
proof -
  let ?calls = "[Training_step batch0 0 1, On_epoch_end]"
  let ?r = "Some \<lparr>loss = 68773 / 32000,
                 progress_bar = [(''gen_loss'', - (27 / 32000)), (''recon_loss'', 43 / 20)]\<rparr>"
  let ?R = "[[[[1 / 2, - 1]], [[0, 1]], [[2, 1 / 4]], [[0, 1]]]] :: tensor"
  let ?F = "[[[[1 / 2, 0]], [[0, 2]], [[2, 5 / 4]], [[0, 1]]]] :: tensor"
  let ?C = "[[[[1 / 2, 0]], [[0, 2]], [[2, 5 / 4]]]] :: tensor"
  note T = discriminator_step_needs_generator_step [of env0 args0 ?calls batch0 0 model0 ?r model1]
  have calls: "\<forall>c \<in> set ?calls. \<not> is_generator_step c" by simp
  have real: "cat_dim1 (image_of batch0) (mask_of batch0) = Inr ?R" by code_simp
  have dreal: "D_forward env0 (net_D (foldl (perform env0) (DeepFillV2 env0 args0) ?calls)) ?R =
      Inr [1 / 2, - 1, 0, 1, 2, 1 / 4, 0, 1]" by code_simp
  from T calls real dreal
  have A: "fst (training_step env0 (foldl (perform env0) (DeepFillV2 env0 args0) ?calls) batch0 0 1)
             = Inl AttributeError"
    by blast
  have f: "fst (training_step env0 model0 batch0 0 0) = Inr ?r" by code_simp
  have gen: "training_step env0 model0 batch0 0 0 = (Inr ?r, model1)"
    using f by (simp add: model1_def prod_eq_iff)
  from T gen obtain completed_image where
    p: "generated_image_only_patch model1 = Some completed_image"
    and all: "\<forall>batch2 idx2 real_in d_real fake_in.
              cat_dim1 (image_of batch2) (mask_of batch2) = Inr real_in \<and>
              D_forward env0 (net_D model1) real_in = Inr d_real \<and>
              cat_dim1 (detach completed_image) (mask_of batch2) = Inr fake_in \<longrightarrow>
              net_D_inputs (new_events model1 (snd (training_step env0 model1 batch2 idx2 1)))
                = [real_in, fake_in]"
    by blast
  have pc: "generated_image_only_patch model1 = Some ?C" by code_simp
  with p have c: "completed_image = ?C" by simp
  have fake: "cat_dim1 (detach ?C) (mask_of batch0) = Inr ?F" by code_simp
  have dreal1: "D_forward env0 (net_D model1) ?R = Inr [1 / 2, - 1, 0, 1, 2, 1 / 4, 0, 1]" by code_simp
  from all real dreal1 fake c
  have B: "net_D_inputs (new_events model1 (snd (training_step env0 model1 batch0 0 1))) = [?R, ?F]"
    by blast
  from T have "generated_image_only_patch (DeepFillV2 env0 args0) = None" by blast
  with A pc B show ?thesis by blast
qed

subsection \<open>Broadcasting, element by element\<close>

lemma bzip_same:
  assumes "length xs = length ys"
  shows "length (bzip f xs ys) = length xs"
    and "i < length xs \<Longrightarrow> bzip f xs ys ! i = f (xs ! i) (ys ! i)"
  using assms by (simp_all add: bzip_def)

lemma bzip_one:
  assumes "length ys = 1"
  shows "length (bzip f xs ys) = length xs"
    and "i < length xs \<Longrightarrow> bzip f xs ys ! i = f (xs ! i) (ys ! 0)"
proof -
  from assms obtain y where ys: "ys = [y]"
    by (cases ys) simp_all
  show "length (bzip f xs ys) = length xs"
    by (simp add: bzip_def ys)
  show "i < length xs \<Longrightarrow> bzip f xs ys ! i = f (xs ! i) (ys ! 0)"
    by (auto simp: bzip_def ys)
qed

lemma has_shape_nth:
  "has_shape t N C H W \<longleftrightarrow>
     length t = N \<and>
     (\<forall>n < N. length (t ! n) = C \<and>
        (\<forall>c < C. length (t ! n ! c) = H \<and> (\<forall>h < H. length (t ! n ! c ! h) = W)))"
  unfolding has_shape_def all_set_conv_all_nth by auto

lemma has_shape_broadcastable:
  assumes "has_shape a N C H W" and "has_shape b N C' H W" and "C' = C \<or> C' = 1"
  shows "broadcastable a b"
  using assms
  unfolding broadcastable_def bcompat_def bc_len_def has_shape_def
  by auto

text \<open>Planes of equal shape.\<close>

lemma bzip_plane:
  assumes "length p = H" and "length q = H"
    and "\<forall>h < H. length (p ! h) = W" and "\<forall>h < H. length (q ! h) = W"
  shows "length (bzip (bzip f) p q) = H"
    and "h < H \<Longrightarrow> length (bzip (bzip f) p q ! h) = W"
    and "h < H \<Longrightarrow> w < W \<Longrightarrow> bzip (bzip f) p q ! h ! w = f (p ! h ! w) (q ! h ! w)"
proof -
  have len: "length p = length q" using assms by simp
  show "length (bzip (bzip f) p q) = H"
    using bzip_same(1)[OF len] assms by simp
  {
    assume h: "h < H"
    then have row: "bzip (bzip f) p q ! h = bzip f (p ! h) (q ! h)"
      using bzip_same(2)[OF len, where i = h] assms by simp
    have rl: "length (p ! h) = length (q ! h)" using assms h by simp
    show "length (bzip (bzip f) p q ! h) = W"
      unfolding row using bzip_same(1)[OF rl] assms h by simp
    assume w: "w < W"
    show "bzip (bzip f) p q ! h ! w = f (p ! h ! w) (q ! h ! w)"
      unfolding row using bzip_same(2)[OF rl, where i = w] assms h w by simp
  }
qed

text \<open>
  A tensor of shape \<open>[N, C, H, W]\<close> with one of shape \<open>[N, C', H, W]\<close>, where \<open>C'\<close> is \<open>C\<close> or
  1: the result has the first shape, and the single channel is read for every channel.
\<close>

lemma elementwise_shape:
  assumes a: "has_shape a N C H W" and b: "has_shape b N C' H W" and C': "C' = C \<or> C' = 1"
  shows "\<exists>r. elementwise f a b = Inr r \<and> has_shape r N C H W \<and>
           (\<forall>n < N. \<forall>c < C. \<forall>h < H. \<forall>w < W.
              r ! n ! c ! h ! w = f (a ! n ! c ! h ! w) (b ! n ! (if C' = 1 then 0 else c) ! h ! w))"
proof -
  let ?r = "bzip (bzip (bzip (bzip f))) a b"
  have e: "elementwise f a b = Inr ?r"
    using has_shape_broadcastable[OF a b C'] by (simp add: elementwise_def)
  from a have la: "length a = N"
    and a1: "\<And>n. n < N \<Longrightarrow> length (a ! n) = C"
    and a2: "\<And>n c. n < N \<Longrightarrow> c < C \<Longrightarrow> length (a ! n ! c) = H"
    and a3: "\<And>n c h. n < N \<Longrightarrow> c < C \<Longrightarrow> h < H \<Longrightarrow> length (a ! n ! c ! h) = W"
    unfolding has_shape_nth by auto
  from b have lb: "length b = N"
    and b1: "\<And>n. n < N \<Longrightarrow> length (b ! n) = C'"
    and b2: "\<And>n c. n < N \<Longrightarrow> c < C' \<Longrightarrow> length (b ! n ! c) = H"
    and b3: "\<And>n c h. n < N \<Longrightarrow> c < C' \<Longrightarrow> h < H \<Longrightarrow> length (b ! n ! c ! h) = W"
    unfolding has_shape_nth by auto
  have lab: "length a = length b" using la lb by simp
  have lr: "length ?r = N"
    using bzip_same(1)[OF lab] la by simp
  have sample: "?r ! n = bzip (bzip (bzip f)) (a ! n) (b ! n)" if "n < N" for n
    using bzip_same(2)[OF lab, where i = n] that la by simp
  have chan: "length (?r ! n) = C \<and>
      (\<forall>c < C. ?r ! n ! c = bzip (bzip f) (a ! n ! c) (b ! n ! (if C' = 1 then 0 else c)))"
    if n: "n < N" for n
  proof (cases "C' = 1")
    case True
    then have one: "length (b ! n) = 1" using b1 n by simp
    show ?thesis
      unfolding sample[OF n]
      using bzip_one[OF one, where f = "bzip (bzip f)" and xs = "a ! n"] a1[OF n] True by simp
  next
    case False
    with C' have "C' = C" by simp
    then have same: "length (a ! n) = length (b ! n)" using a1 b1 n by simp
    show ?thesis
      unfolding sample[OF n]
      using bzip_same[OF same, where f = "bzip (bzip f)"] a1[OF n] False by simp
  qed
  have plane: "length (?r ! n ! c) = H \<and>
      (\<forall>h < H. length (?r ! n ! c ! h) = W \<and>
         (\<forall>w < W. ?r ! n ! c ! h ! w = f (a ! n ! c ! h ! w) (b ! n ! (if C' = 1 then 0 else c) ! h ! w)))"
    if n: "n < N" and c: "c < C" for n c
  proof -
    let ?c' = "if C' = 1 then 0 else c"
    have c': "?c' < C'" using C' c by auto
    have eq: "?r ! n ! c = bzip (bzip f) (a ! n ! c) (b ! n ! ?c')"
      using chan[OF n] c by simp
    have p1: "length (a ! n ! c) = H" using a2 n c by simp
    have p2: "length (b ! n ! ?c') = H" using b2[OF n c'] .
    have p3: "\<forall>h < H. length (a ! n ! c ! h) = W" using a3 n c by simp
    have p4: "\<forall>h < H. length (b ! n ! ?c' ! h) = W" using b3[OF n c'] by simp
    show ?thesis
      unfolding eq using bzip_plane[OF p1 p2 p3 p4, where f = f] by simp
  qed
  have "has_shape ?r N C H W"
    unfolding has_shape_nth using lr chan plane by simp
  moreover have "\<forall>n < N. \<forall>c < C. \<forall>h < H. \<forall>w < W.
      ?r ! n ! c ! h ! w = f (a ! n ! c ! h ! w) (b ! n ! (if C' = 1 then 0 else c) ! h ! w)"
    using plane by simp
  ultimately show ?thesis using e by blast
qed

lemma rsub_shape:
  assumes "has_shape m N C H W"
  shows "has_shape (rsub k m) N C H W"
    and "n < N \<Longrightarrow> c < C \<Longrightarrow> h < H \<Longrightarrow> w < W \<Longrightarrow> rsub k m ! n ! c ! h ! w = k - m ! n ! c ! h ! w"
  using assms unfolding has_shape_nth rsub_def pointwise_def by simp_all


lemma binary_nth:
  assumes "binary m" and "has_shape m N C H W" and "n < N" and "c < C" and "h < H" and "w < W"
  shows "m ! n ! c ! h ! w = 0 \<or> m ! n ! c ! h ! w = 1"
proof -
  from assms(2-6) have "m ! n \<in> set m" "m ! n ! c \<in> set (m ! n)"
    "m ! n ! c ! h \<in> set (m ! n ! c)" "m ! n ! c ! h ! w \<in> set (m ! n ! c ! h)"
    unfolding has_shape_nth by simp_all
  with assms(1) show ?thesis
    unfolding binary_def by blast
qed

lemma blend_pixels:
  assumes img: "has_shape img N C H W" and ref: "has_shape refined_image N C H W"
    and msk: "has_shape msk N 1 H W"
  shows "\<exists>completed_image. blend refined_image img msk = Inr completed_image \<and>
           has_shape completed_image N C H W \<and>
           (\<forall>n < N. \<forall>c < C. \<forall>h < H. \<forall>w < W.
              completed_image ! n ! c ! h ! w =
                refined_image ! n ! c ! h ! w * msk ! n ! 0 ! h ! w
                + img ! n ! c ! h ! w * (1 - msk ! n ! 0 ! h ! w))"
proof -
  from elementwise_shape[OF ref msk, of "\<lambda>x y. x * y"] obtain a where
    a: "t_mul refined_image msk = Inr a" "has_shape a N C H W"
    and ap: "\<And>n c h w. n < N \<Longrightarrow> c < C \<Longrightarrow> h < H \<Longrightarrow> w < W \<Longrightarrow>
               a ! n ! c ! h ! w = refined_image ! n ! c ! h ! w * msk ! n ! 0 ! h ! w"
    unfolding t_mul_def by auto
  have inv: "has_shape (rsub 1 msk) N 1 H W"
    using rsub_shape(1)[OF msk] .
  from elementwise_shape[OF img inv, of "\<lambda>x y. x * y"] obtain b where
    b: "t_mul img (rsub 1 msk) = Inr b" "has_shape b N C H W"
    and bp0: "\<And>n c h w. n < N \<Longrightarrow> c < C \<Longrightarrow> h < H \<Longrightarrow> w < W \<Longrightarrow>
               b ! n ! c ! h ! w = img ! n ! c ! h ! w * rsub 1 msk ! n ! 0 ! h ! w"
    unfolding t_mul_def by auto
  have bp: "b ! n ! c ! h ! w = img ! n ! c ! h ! w * (1 - msk ! n ! 0 ! h ! w)"
    if "n < N" "c < C" "h < H" "w < W" for n c h w
    using bp0[OF that] rsub_shape(2)[OF msk, of n 0 h w 1] that by simp
  from elementwise_shape[OF a(2) b(2), of "\<lambda>x y. x + y"] obtain r where
    r: "t_add a b = Inr r" "has_shape r N C H W"
    and rp: "\<And>n c h w. n < N \<Longrightarrow> c < C \<Longrightarrow> h < H \<Longrightarrow> w < W \<Longrightarrow>
               r ! n ! c ! h ! w = a ! n ! c ! h ! w + b ! n ! (if C = 1 then 0 else c) ! h ! w"
    unfolding t_add_def by auto
  have rp': "r ! n ! c ! h ! w = a ! n ! c ! h ! w + b ! n ! c ! h ! w"
    if "n < N" "c < C" "h < H" "w < W" for n c h w
    using rp[OF that] that by (cases "C = 1") simp_all
  have "blend refined_image img msk = Inr r"
    by (simp add: blend_def a(1) b(1) r(1))
  moreover have "\<forall>n < N. \<forall>c < C. \<forall>h < H. \<forall>w < W.
              r ! n ! c ! h ! w =
                refined_image ! n ! c ! h ! w * msk ! n ! 0 ! h ! w
                + img ! n ! c ! h ! w * (1 - msk ! n ! 0 ! h ! w)"
    using rp' ap bp by simp
  ultimately show ?thesis using r(2) by blast
qed

lemma masked_exists:
  assumes img: "has_shape img N C H W" and msk: "has_shape msk N 1 H W"
  shows "\<exists>masked_image. bindE (t_mul img (rsub 1 msk)) (\<lambda>a. t_add a msk) = Inr masked_image"
proof -
  have inv: "has_shape (rsub 1 msk) N 1 H W"
    using rsub_shape(1)[OF msk] .
  from elementwise_shape[OF img inv, of "\<lambda>x y. x * y"] obtain b where
    b: "t_mul img (rsub 1 msk) = Inr b" "has_shape b N C H W"
    unfolding t_mul_def by auto
  from elementwise_shape[OF b(2) msk, of "\<lambda>x y. x + y"] obtain r where
    "t_add b msk = Inr r"
    unfolding t_add_def by auto
  with b(1) show ?thesis by simp
qed

text \<open>
  C1. In a generator step on a batch with an image of shape \<open>[N, C, H, W]\<close>, a mask of
  shape \<open>[N, 1, H, W]\<close> with values 0 and 1 and a refined output of the shape of the image,
  the completed image is \<open>refined_image * mask + image * (1 - mask)\<close>: it has the shape of
  the image, at a pixel where the mask is 0 it is the image and at a pixel where the
  mask is 1 it is the refined output. It is stored in the object once the reconstruction
  loss has returned. The visualization computes the completed image of a batch by the
  same blending.
\<close>

theorem completed_image_blends_by_mask:
  assumes "has_shape (image_of batch) N C H W"
    and "has_shape (mask_of batch) N 1 H W"
    and "binary (mask_of batch)"
    and "G_forward env (net_G self) (image_of batch) (mask_of batch) = Inr (coarse_image, refined_image)"
    and "has_shape refined_image N C H W"
    and "recon_forward env (recon_loss self) (image_of batch) coarse_image refined_image (mask_of batch)
           = Inr reconstruction_loss"
  shows "\<exists>completed_image.
           blend refined_image (image_of batch) (mask_of batch) = Inr completed_image \<and>
           generated_image_only_patch (snd (training_step env self batch batch_idx 0)) = Some completed_image \<and>
           has_shape completed_image N C H W \<and>
           (\<forall>n < N. \<forall>c < C. \<forall>h < H. \<forall>w < W.
              completed_image ! n ! c ! h ! w =
                refined_image ! n ! c ! h ! w * mask_of batch ! n ! 0 ! h ! w
                + image_of batch ! n ! c ! h ! w * (1 - mask_of batch ! n ! 0 ! h ! w) \<and>
              (mask_of batch ! n ! 0 ! h ! w = 0 \<longrightarrow>
                 completed_image ! n ! c ! h ! w = image_of batch ! n ! c ! h ! w) \<and>
              (mask_of batch ! n ! 0 ! h ! w = 1 \<longrightarrow>
                 completed_image ! n ! c ! h ! w = refined_image ! n ! c ! h ! w) \<and>
              (mask_of batch ! n ! 0 ! h ! w = 0 \<or> mask_of batch ! n ! 0 ! h ! w = 1)) \<and>
           (\<exists>masked_image. fst (visualize_batch env self batch) =
              Inr (coarse_image, refined_image, masked_image, completed_image))"
proof -
  from blend_pixels[OF assms(1) assms(5) assms(2)] obtain completed_image where
    bl: "blend refined_image (image_of batch) (mask_of batch) = Inr completed_image"
    and sh: "has_shape completed_image N C H W"
    and px: "\<And>n c h w. n < N \<Longrightarrow> c < C \<Longrightarrow> h < H \<Longrightarrow> w < W \<Longrightarrow>
              completed_image ! n ! c ! h ! w =
                refined_image ! n ! c ! h ! w * mask_of batch ! n ! 0 ! h ! w
                + image_of batch ! n ! c ! h ! w * (1 - mask_of batch ! n ! 0 ! h ! w)"
    by blast
  have "generated_image_only_patch (snd (training_step env self batch batch_idx 0)) =
          generated_image_only_patch (snd (generator_step env (self\<lparr>last_batch := Some batch\<rparr>)
             (image_of batch) (mask_of batch)))"
    by (simp add: training_step_def Let_def)
  also have "\<dots> = Some completed_image"
    unfolding generator_step_patch using assms(4,6) bl by simp
  finally have st: "generated_image_only_patch (snd (training_step env self batch batch_idx 0))
      = Some completed_image" .
  from masked_exists[OF assms(1,2)] obtain masked_image where
    "bindE (t_mul (image_of batch) (rsub 1 (mask_of batch))) (\<lambda>a. t_add a (mask_of batch)) = Inr masked_image"
    by blast
  then have vis: "fst (visualize_batch env self batch) =
      Inr (coarse_image, refined_image, masked_image, completed_image)"
    using assms(4) bl by (simp add: visualize_batch_def Let_def)
  have "\<forall>n < N. \<forall>c < C. \<forall>h < H. \<forall>w < W.
              completed_image ! n ! c ! h ! w =
                refined_image ! n ! c ! h ! w * mask_of batch ! n ! 0 ! h ! w
                + image_of batch ! n ! c ! h ! w * (1 - mask_of batch ! n ! 0 ! h ! w) \<and>
              (mask_of batch ! n ! 0 ! h ! w = 0 \<longrightarrow>
                 completed_image ! n ! c ! h ! w = image_of batch ! n ! c ! h ! w) \<and>
              (mask_of batch ! n ! 0 ! h ! w = 1 \<longrightarrow>
                 completed_image ! n ! c ! h ! w = refined_image ! n ! c ! h ! w) \<and>
              (mask_of batch ! n ! 0 ! h ! w = 0 \<or> mask_of batch ! n ! 0 ! h ! w = 1)"
  proof (intro allI impI)
    fix n c h w
    assume b: "n < N" "c < C" "h < H" "w < W"
    have "mask_of batch ! n ! 0 ! h ! w = 0 \<or> mask_of batch ! n ! 0 ! h ! w = 1"
      using binary_nth[OF assms(3) assms(2) b(1) _ b(3) b(4), of 0] by simp
    then show "completed_image ! n ! c ! h ! w =
                refined_image ! n ! c ! h ! w * mask_of batch ! n ! 0 ! h ! w
                + image_of batch ! n ! c ! h ! w * (1 - mask_of batch ! n ! 0 ! h ! w) \<and>
              (mask_of batch ! n ! 0 ! h ! w = 0 \<longrightarrow>
                 completed_image ! n ! c ! h ! w = image_of batch ! n ! c ! h ! w) \<and>
              (mask_of batch ! n ! 0 ! h ! w = 1 \<longrightarrow>
                 completed_image ! n ! c ! h ! w = refined_image ! n ! c ! h ! w) \<and>
              (mask_of batch ! n ! 0 ! h ! w = 0 \<or> mask_of batch ! n ! 0 ! h ! w = 1)"
      using px[OF b] by auto
  qed
  with bl st sh vis show ?thesis by blast
qed


theorem completed_image_blends_by_mask_witness:
  "has_shape (image_of batch0) 1 3 1 2 \<and> has_shape (mask_of batch0) 1 1 1 2 \<and> binary (mask_of batch0)
   \<and> has_shape [[[[3 / 2, 0]], [[1, 2]], [[3, 5 / 4]]]] 1 3 1 2
   \<and> generated_image_only_patch (snd (training_step env0 model0 batch0 0 0)) =
        Some [[[[1 / 2, 0]], [[0, 2]], [[2, 5 / 4]]]]
   \<and> mask_of batch0 ! 0 ! 0 ! 0 ! 0 = 0
   \<and> [[[[1 / 2, 0]], [[0, 2]], [[2, 5 / 4 :: real]]]] ! 0 ! 2 ! 0 ! 0 = image_of batch0 ! 0 ! 2 ! 0 ! 0
   \<and> mask_of batch0 ! 0 ! 0 ! 0 ! 1 = 1
   \<and> [[[[1 / 2, 0]], [[0, 2]], [[2, 5 / 4 :: real]]]] ! 0 ! 2 ! 0 ! 1 =
       [[[[3 / 2, 0]], [[1, 2]], [[3, 5 / 4 :: real]]]] ! 0 ! 2 ! 0 ! 1"
proof -
  let ?coarse = "[[[[0, 0]], [[0, 0]], [[0, 0]]]] :: tensor"
  let ?refined = "[[[[3 / 2, 0]], [[1, 2]], [[3, 5 / 4]]]] :: tensor"
  let ?completed = "[[[[1 / 2, 0]], [[0, 2]], [[2, 5 / 4]]]] :: tensor"
  have h1: "has_shape (image_of batch0) 1 3 1 2" by code_simp
  have h2: "has_shape (mask_of batch0) 1 1 1 2" by code_simp
  have h3: "binary (mask_of batch0)" by code_simp
  have h4: "G_forward env0 (net_G model0) (image_of batch0) (mask_of batch0) = Inr (?coarse, ?refined)"
    by code_simp
  have h5: "has_shape ?refined 1 3 1 2" by code_simp
  have h6: "recon_forward env0 (recon_loss model0) (image_of batch0) ?coarse ?refined (mask_of batch0)
              = Inr (43 / 20)"
    by code_simp
  from completed_image_blends_by_mask [OF h1 h2 h3 h4 h5 h6, of 0]
  obtain completed_image where
    p: "generated_image_only_patch (snd (training_step env0 model0 batch0 0 0)) = Some completed_image"
    and px: "\<forall>n < 1. \<forall>c < 3. \<forall>h < 1. \<forall>w < 2.
              completed_image ! n ! c ! h ! w =
                ?refined ! n ! c ! h ! w * mask_of batch0 ! n ! 0 ! h ! w
                + image_of batch0 ! n ! c ! h ! w * (1 - mask_of batch0 ! n ! 0 ! h ! w) \<and>
              (mask_of batch0 ! n ! 0 ! h ! w = 0 \<longrightarrow>
                 completed_image ! n ! c ! h ! w = image_of batch0 ! n ! c ! h ! w) \<and>
              (mask_of batch0 ! n ! 0 ! h ! w = 1 \<longrightarrow>
                 completed_image ! n ! c ! h ! w = ?refined ! n ! c ! h ! w) \<and>
              (mask_of batch0 ! n ! 0 ! h ! w = 0 \<or> mask_of batch0 ! n ! 0 ! h ! w = 1)"
    by blast
  have pc: "generated_image_only_patch (snd (training_step env0 model0 batch0 0 0)) = Some ?completed"
    by code_simp
  with p have c: "completed_image = ?completed" by simp
  have m0: "mask_of batch0 ! 0 ! 0 ! 0 ! 0 = 0" by (simp add: batch0_def)
  have m1: "mask_of batch0 ! 0 ! 0 ! 0 ! 1 = 1" by (simp add: batch0_def)
  from px have "mask_of batch0 ! 0 ! 0 ! 0 ! 0 = 0 \<longrightarrow>
      completed_image ! 0 ! 2 ! 0 ! 0 = image_of batch0 ! 0 ! 2 ! 0 ! 0"
    by simp
  with m0 c have a: "?completed ! 0 ! 2 ! 0 ! 0 = image_of batch0 ! 0 ! 2 ! 0 ! 0" by simp
  from px have "mask_of batch0 ! 0 ! 0 ! 0 ! 1 = 1 \<longrightarrow>
      completed_image ! 0 ! 2 ! 0 ! 1 = ?refined ! 0 ! 2 ! 0 ! 1"
    by simp
  with m1 c have b: "?completed ! 0 ! 2 ! 0 ! 1 = ?refined ! 0 ! 2 ! 0 ! 1" by simp
  from h1 h2 h3 h5 pc m0 a m1 b show ?thesis by blast
qed

subsection \<open>The reconstruction loss of the object\<close>

lemma recon_loss_generator_step:
  "recon_loss (snd (generator_step env self img msk)) = recon_loss self"
  unfolding generator_step_def Let_def
  by (auto simp: raising_def split: sum.splits prod.splits)

lemma recon_loss_discriminator_step:
  "recon_loss (snd (discriminator_step env self img msk)) = recon_loss self"
  unfolding discriminator_step_def Let_def
  by (auto simp: raising_def split: sum.splits option.splits)

lemma recon_loss_perform: "recon_loss (perform env self c) = recon_loss self"
proof (cases c)
  case (Training_step batch batch_idx optimizer_idx)
  then show ?thesis
    by (simp add: training_step_def Let_def recon_loss_generator_step recon_loss_discriminator_step)
next
  case Configure_optimizers
  then show ?thesis by simp
next
  case On_epoch_end
  obtain evs where "snd (on_epoch_end env self) = self\<lparr>trace := trace self @ evs\<rparr>"
    using on_epoch_end_frame by blast
  with On_epoch_end show ?thesis by simp
qed

lemma recon_loss_calls: "recon_loss (foldl (perform env) self calls) = recon_loss self"
  by (induction calls arbitrary: self) (simp_all add: recon_loss_perform)

text \<open>
  C7. The constructor builds the reconstruction loss from the four weights \<open>l1_c_h\<close>,
  \<open>l1_c_nh\<close>, \<open>l1_r_h\<close> and \<open>l1_r_nh\<close> of the arguments, in this order, and no call replaces
  it. With the forward pass as the specification describes it, the loss of image, coarse
  output, refined output and mask is the sum of four L1 distances, coarse in the hole,
  coarse outside, refined in the hole and refined outside, each multiplied by its own
  weight; none of the four distances depends on a weight. This is the value a generator
  step reports as \<open>recon_loss\<close>.
\<close>

theorem reconstruction_loss_four_weights:
  assumes "recon_forward env = ReconstructionLoss_forward"
    and "l1_region img coarse_image msk = Inr ch"
    and "l1_region img coarse_image (rsub 1 msk) = Inr cnh"
    and "l1_region img refined_image msk = Inr rh"
    and "l1_region img refined_image (rsub 1 msk) = Inr rnh"
  shows "recon_loss (DeepFillV2 env args) =
           ReconstructionLoss (l1_c_h args) (l1_c_nh args) (l1_r_h args) (l1_r_nh args)
       \<and> recon_loss (foldl (perform env) (DeepFillV2 env args) calls) = recon_loss (DeepFillV2 env args)
       \<and> recon_forward env (recon_loss (DeepFillV2 env args)) img coarse_image refined_image msk =
           Inr (l1_c_h args * ch + l1_c_nh args * cnh + l1_r_h args * rh + l1_r_nh args * rnh)
       \<and> (image_of batch = img \<and> mask_of batch = msk \<and>
          G_forward env (net_G (foldl (perform env) (DeepFillV2 env args) calls)) img msk
            = Inr (coarse_image, refined_image) \<and>
          fst (training_step env (foldl (perform env) (DeepFillV2 env args) calls) batch batch_idx 0)
            = Inr (Some ld) \<longrightarrow>
          map_of (progress_bar ld) ''recon_loss'' =
            Some (l1_c_h args * ch + l1_c_nh args * cnh + l1_r_h args * rh + l1_r_nh args * rnh))"
proof -
  let ?s = "foldl (perform env) (DeepFillV2 env args) calls"
  let ?v = "l1_c_h args * ch + l1_c_nh args * cnh + l1_r_h args * rh + l1_r_nh args * rnh"
  have c: "recon_loss (DeepFillV2 env args) =
           ReconstructionLoss (l1_c_h args) (l1_c_nh args) (l1_r_h args) (l1_r_nh args)"
    by (simp add: DeepFillV2_def)
  have k: "recon_loss ?s = recon_loss (DeepFillV2 env args)"
    by (rule recon_loss_calls)
  have f: "recon_forward env (recon_loss (DeepFillV2 env args)) img coarse_image refined_image msk = Inr ?v"
    unfolding c assms(1) ReconstructionLoss_forward_def
    by (simp add: assms(2-5))
  have "map_of (progress_bar ld) ''recon_loss'' = Some ?v"
    if b: "image_of batch = img" "mask_of batch = msk"
      and g: "G_forward env (net_G ?s) img msk = Inr (coarse_image, refined_image)"
      and r: "fst (training_step env ?s batch batch_idx 0) = Inr (Some ld)"
  proof -
    from r obtain s' where
      "generator_step env (?s\<lparr>last_batch := Some batch\<rparr>) img msk = (Inr (Some ld), s')"
      by (auto simp: training_step_def Let_def fst_eq_iff b)
    then obtain rl where "recon_forward env (recon_loss ?s) img coarse_image refined_image msk = Inr rl"
      and "map_of (progress_bar ld) ''recon_loss'' = Some rl"
      unfolding generator_step_Inr using g by auto
    with f k show ?thesis by simp
  qed
  with c k f show ?thesis by blast
qed


theorem reconstruction_loss_four_weights_witness:
  "recon_forward env0 = ReconstructionLoss_forward
   \<and> l1_region (image_of batch0) [[[[0, 0]], [[0, 0]], [[0, 0]]]] (mask_of batch0) = Inr (3 / 8)
   \<and> l1_region (image_of batch0) [[[[0, 0]], [[0, 0]], [[0, 0]]]] (rsub 1 (mask_of batch0)) = Inr (5 / 12)
   \<and> l1_region (image_of batch0) [[[[3 / 2, 0]], [[1, 2]], [[3, 5 / 4]]]] (mask_of batch0) = Inr (1 / 2)
   \<and> l1_region (image_of batch0) [[[[3 / 2, 0]], [[1, 2]], [[3, 5 / 4]]]] (rsub 1 (mask_of batch0)) = Inr (1 / 2)
   \<and> recon_forward env0 (recon_loss (DeepFillV2 env0 args0)) (image_of batch0)
        [[[[0, 0]], [[0, 0]], [[0, 0]]]] [[[[3 / 2, 0]], [[1, 2]], [[3, 5 / 4]]]] (mask_of batch0)
        = Inr (43 / 20)
   \<and> map_of (progress_bar \<lparr>loss = 68773 / 32000,
                 progress_bar = [(''gen_loss'', - (27 / 32000)), (''recon_loss'', 43 / 20)]\<rparr>)
         ''recon_loss'' = Some (43 / 20)"
proof -
  let ?coarse = "[[[[0, 0]], [[0, 0]], [[0, 0]]]] :: tensor"
  let ?refined = "[[[[3 / 2, 0]], [[1, 2]], [[3, 5 / 4]]]] :: tensor"
  let ?ld = "\<lparr>loss = 68773 / 32000,
                 progress_bar = [(''gen_loss'', - (27 / 32000)), (''recon_loss'', 43 / 20)]\<rparr>"
  have h1: "recon_forward env0 = ReconstructionLoss_forward" by (simp add: env0_def)
  have h2: "l1_region (image_of batch0) ?coarse (mask_of batch0) = Inr (3 / 8)" by code_simp
  have h3: "l1_region (image_of batch0) ?coarse (rsub 1 (mask_of batch0)) = Inr (5 / 12)" by code_simp
  have h4: "l1_region (image_of batch0) ?refined (mask_of batch0) = Inr (1 / 2)" by code_simp
  have h5: "l1_region (image_of batch0) ?refined (rsub 1 (mask_of batch0)) = Inr (1 / 2)" by code_simp
  note T = reconstruction_loss_four_weights [OF h1 h2 h3 h4 h5, of args0 "[]" batch0 0 ?ld]
  have v: "l1_c_h args0 * (3 / 8) + l1_c_nh args0 * (5 / 12) + l1_r_h args0 * (1 / 2)
             + l1_r_nh args0 * (1 / 2) = 43 / 20"
    by (simp add: args0_def)
  have g: "G_forward env0 (net_G (foldl (perform env0) (DeepFillV2 env0 args0) [])) (image_of batch0)
             (mask_of batch0) = Inr (?coarse, ?refined)"
    by code_simp
  have r: "fst (training_step env0 (foldl (perform env0) (DeepFillV2 env0 args0) []) batch0 0 0)
             = Inr (Some ?ld)"
    by code_simp
  from T have "recon_forward env0 (recon_loss (DeepFillV2 env0 args0)) (image_of batch0)
        ?coarse ?refined (mask_of batch0) =
        Inr (l1_c_h args0 * (3 / 8) + l1_c_nh args0 * (5 / 12) + l1_r_h args0 * (1 / 2)
             + l1_r_nh args0 * (1 / 2))"
    by blast
  then have a: "recon_forward env0 (recon_loss (DeepFillV2 env0 args0)) (image_of batch0)
        ?coarse ?refined (mask_of batch0) = Inr (43 / 20)"
    unfolding v .
  from T g r have "map_of (progress_bar ?ld) ''recon_loss'' =
        Some (l1_c_h args0 * (3 / 8) + l1_c_nh args0 * (5 / 12) + l1_r_h args0 * (1 / 2)
             + l1_r_nh args0 * (1 / 2))"
    by blast
  then have b: "map_of (progress_bar ?ld) ''recon_loss'' = Some (43 / 20)"
    unfolding v .
  from h1 h2 h3 h4 h5 a b show ?thesis by blast
qed

subsection \<open>The masked image\<close>

lemma bzip_fuse:
  assumes "bc_len xs ys"
    and "\<And>x y. x \<in> set xs \<Longrightarrow> y \<in> set ys \<Longrightarrow> G (F x (H y)) y = K x y"
  shows "bzip G (bzip F xs (map H ys)) ys = bzip K xs ys"
proof (cases "length xs = length ys")
  case True
  then have "bzip G (bzip F xs (map H ys)) ys = map2 G (map2 F xs (map H ys)) ys"
    by (simp add: bzip_def)
  also have "\<dots> = map2 K xs ys"
    using True assms(2)
  proof (induction xs ys rule: list_induct2)
    case Nil
    then show ?case by simp
  next
    case (Cons x xs y ys)
    then show ?case by simp
  qed
  finally show ?thesis using True by (simp add: bzip_def)
next
  case False
  show ?thesis
  proof (cases "length xs = 1")
    case True
    then obtain x where xs: "xs = [x]" by (cases xs) simp_all
    have "bzip G (bzip F xs (map H ys)) ys = map2 G (map (\<lambda>y. F x (H y)) ys) ys"
      using False by (simp add: bzip_def xs comp_def)
    also have "\<dots> = map (\<lambda>y. G (F x (H y)) y) ys"
      by (induction ys) simp_all
    also have "\<dots> = map (K x) ys"
      using assms(2) by (simp add: xs)
    finally show ?thesis using False by (simp add: bzip_def xs)
  next
    case one: False
    with False assms(1) have ly: "length ys = 1" by (simp add: bc_len_def)
    then obtain y where ys: "ys = [y]" by (cases ys) simp_all
    have inner: "bzip F xs (map H ys) = map (\<lambda>x. F x (H y)) xs"
      using False one by (simp add: bzip_def ys)
    have "bzip G (map (\<lambda>x. F x (H y)) xs) ys = map (\<lambda>x. G (F x (H y)) y) xs"
      using False one by (simp add: bzip_def ys comp_def)
    also have "\<dots> = map (\<lambda>x. K x y) xs"
      using assms(2) by (simp add: ys)
    finally show ?thesis using False one by (simp add: bzip_def inner) (simp add: ys)
  qed
qed

lemma bzip_fuse_compat:
  assumes "bcompat p xs ys"
    and "\<And>x y. x \<in> set xs \<Longrightarrow> y \<in> set ys \<Longrightarrow> p x y \<Longrightarrow> G (F x (H y)) y = K x y"
  shows "bzip G (bzip F xs (map H ys)) ys = bzip K xs ys"
  using assms by (intro bzip_fuse) (auto simp: bcompat_def)

lemma bc_len_map [simp]: "bc_len xs (map h ys) = bc_len xs ys"
  by (simp add: bc_len_def)

lemma bcompat_map: "bcompat p xs (map h ys) = bcompat (\<lambda>x y. p x (h y)) xs ys"
  by (auto simp: bcompat_def)

lemma broadcastable_rsub [simp]: "broadcastable img (rsub k msk) = broadcastable img msk"
  by (simp add: broadcastable_def rsub_def pointwise_def bcompat_map)

lemma masked_fused:
  assumes "broadcastable img msk" and "binary msk"
  shows "bzip (bzip (bzip (bzip (\<lambda>x y. x + y))))
           (bzip (bzip (bzip (bzip (\<lambda>x y. x * y)))) img (rsub 1 msk)) msk
         = bzip (bzip (bzip (bzip (\<lambda>x m. if m = 1 then 1 else x)))) img msk"
  unfolding rsub_def pointwise_def
proof (rule bzip_fuse_compat)
  show "bcompat (bcompat (bcompat bc_len)) img msk"
    using assms(1) by (simp add: broadcastable_def)
next
  fix s t :: "real list list list"
  assume t: "t \<in> set msk" and st: "bcompat (bcompat bc_len) s t"
  show "bzip (bzip (bzip (\<lambda>x y. x + y))) (bzip (bzip (bzip (\<lambda>x y. x * y))) s (map (map (map (\<lambda>x. 1 - x))) t)) t
        = bzip (bzip (bzip (\<lambda>x m. if m = 1 then 1 else x))) s t"
  proof (rule bzip_fuse_compat[OF st])
    fix p q :: "real list list"
    assume q: "q \<in> set t" and pq: "bcompat bc_len p q"
    show "bzip (bzip (\<lambda>x y. x + y)) (bzip (bzip (\<lambda>x y. x * y)) p (map (map (\<lambda>x. 1 - x)) q)) q
          = bzip (bzip (\<lambda>x m. if m = 1 then 1 else x)) p q"
    proof (rule bzip_fuse_compat[OF pq])
      fix r u :: "real list"
      assume u: "u \<in> set q" and ru: "bc_len r u"
      show "bzip (\<lambda>x y. x + y) (bzip (\<lambda>x y. x * y) r (map (\<lambda>x. 1 - x) u)) u
            = bzip (\<lambda>x m. if m = 1 then 1 else x) r u"
      proof (rule bzip_fuse[OF ru])
        fix x m :: real
        assume "m \<in> set u"
        with u q t assms(2) have "m = 0 \<or> m = 1"
          unfolding binary_def by blast
        then show "x * (1 - m) + m = (if m = 1 then 1 else x)" by auto
      qed
    qed
  qed
qed

lemma masked_is_hole_to_one:
  assumes "binary msk"
    and "bindE (t_mul img (rsub 1 msk)) (\<lambda>a. t_add a msk) = Inr masked_image"
  shows "hole_to_one img msk = Inr masked_image"
proof -
  from assms(2) obtain a where a: "t_mul img (rsub 1 msk) = Inr a" and m: "t_add a msk = Inr masked_image"
    by (auto simp: bindE_eq_Inr)
  from a have bc: "broadcastable img msk"
    and a': "a = bzip (bzip (bzip (bzip (\<lambda>x y. x * y)))) img (rsub 1 msk)"
    by (auto simp: t_mul_def elementwise_def split: if_splits)
  from m have "masked_image = bzip (bzip (bzip (bzip (\<lambda>x y. x + y)))) a msk"
    by (auto simp: t_add_def elementwise_def split: if_splits)
  then have "masked_image = bzip (bzip (bzip (bzip (\<lambda>x m. if m = 1 then 1 else x)))) img msk"
    unfolding a' using masked_fused[OF bc assms(1)] by simp
  then show ?thesis
    using bc by (simp add: hole_to_one_def elementwise_def)
qed

subsection \<open>The loops of the visualization\<close>

lemma mapE_Cons_Inr:
  "mapE f (x # xs) = Inr zs \<longleftrightarrow> (\<exists>y ys. f x = Inr y \<and> mapE f xs = Inr ys \<and> zs = y # ys)"
  by (auto split: sum.splits)

lemma sample_pictures_Inr:
  "sample_pictures img (c, r, m, cm) j cols = Inr cols1 \<longleftrightarrow>
     (\<exists>p1 p2 p3 p4 p5.
        bindE (get_item img j) to_picture = Inr p1 \<and>
        bindE (get_item c j) to_picture = Inr p2 \<and>
        bindE (get_item r j) to_picture = Inr p3 \<and>
        bindE (get_item m j) to_picture = Inr p4 \<and>
        bindE (get_item cm j) to_picture = Inr p5 \<and>
        cols1 = \<lparr>images = images cols @ [p1], coarse = coarse cols @ [p2],
                 refined = refined cols @ [p3], masked = masked cols @ [p4],
                 completed = completed cols @ [p5]\<rparr>)"
  unfolding sample_pictures_def
  by (cases cols) (auto simp: bindE_eq_Inr)

lemma append_pictures_columns:
  "append_pictures (sample_pictures img (c, r, m, cm)) js cols = Inr cols' \<Longrightarrow>
   \<exists>p1 p2 p3 p4 p5.
     mapE (\<lambda>j. bindE (get_item img j) to_picture) js = Inr p1 \<and>
     mapE (\<lambda>j. bindE (get_item c j) to_picture) js = Inr p2 \<and>
     mapE (\<lambda>j. bindE (get_item r j) to_picture) js = Inr p3 \<and>
     mapE (\<lambda>j. bindE (get_item m j) to_picture) js = Inr p4 \<and>
     mapE (\<lambda>j. bindE (get_item cm j) to_picture) js = Inr p5 \<and>
     cols' = \<lparr>images = images cols @ p1, coarse = coarse cols @ p2,
              refined = refined cols @ p3, masked = masked cols @ p4,
              completed = completed cols @ p5\<rparr>"
proof (induction js arbitrary: cols)
  case Nil
  then show ?case by (cases cols) simp
next
  case (Cons j js)
  from Cons.prems obtain cols1 where
    one: "sample_pictures img (c, r, m, cm) j cols = Inr cols1"
    and rest: "append_pictures (sample_pictures img (c, r, m, cm)) js cols1 = Inr cols'"
    by (auto split: sum.splits)
  from one obtain q1 q2 q3 q4 q5 where
    q: "bindE (get_item img j) to_picture = Inr q1"
       "bindE (get_item c j) to_picture = Inr q2"
       "bindE (get_item r j) to_picture = Inr q3"
       "bindE (get_item m j) to_picture = Inr q4"
       "bindE (get_item cm j) to_picture = Inr q5"
    and c1: "cols1 = \<lparr>images = images cols @ [q1], coarse = coarse cols @ [q2],
                 refined = refined cols @ [q3], masked = masked cols @ [q4],
                 completed = completed cols @ [q5]\<rparr>"
    unfolding sample_pictures_Inr by blast
  from Cons.IH[OF rest] obtain p1 p2 p3 p4 p5 where
    p: "mapE (\<lambda>j. bindE (get_item img j) to_picture) js = Inr p1"
       "mapE (\<lambda>j. bindE (get_item c j) to_picture) js = Inr p2"
       "mapE (\<lambda>j. bindE (get_item r j) to_picture) js = Inr p3"
       "mapE (\<lambda>j. bindE (get_item m j) to_picture) js = Inr p4"
       "mapE (\<lambda>j. bindE (get_item cm j) to_picture) js = Inr p5"
    and c': "cols' = \<lparr>images = images cols1 @ p1, coarse = coarse cols1 @ p2,
              refined = refined cols1 @ p3, masked = masked cols1 @ p4,
              completed = completed cols1 @ p5\<rparr>"
    by blast
  have "cols' = \<lparr>images = images cols @ (q1 # p1), coarse = coarse cols @ (q2 # p2),
              refined = refined cols @ (q3 # p3), masked = masked cols @ (q4 # p4),
              completed = completed cols @ (q5 # p5)\<rparr>"
    unfolding c' c1 by simp
  moreover have
    "mapE (\<lambda>j. bindE (get_item img j) to_picture) (j # js) = Inr (q1 # p1)"
    "mapE (\<lambda>j. bindE (get_item c j) to_picture) (j # js) = Inr (q2 # p2)"
    "mapE (\<lambda>j. bindE (get_item r j) to_picture) (j # js) = Inr (q3 # p3)"
    "mapE (\<lambda>j. bindE (get_item m j) to_picture) (j # js) = Inr (q4 # p4)"
    "mapE (\<lambda>j. bindE (get_item cm j) to_picture) (j # js) = Inr (q5 # p5)"
    using q p by simp_all
  ultimately show ?case by blast
qed

lemma visualize_batch_Inr:
  "visualize_batch env self b = (Inr views, s1) \<longleftrightarrow>
     (\<exists>coarse_image refined_image completed_image masked_image.
        G_forward env (net_G self) (image_of b) (mask_of b) = Inr (coarse_image, refined_image) \<and>
        blend refined_image (image_of b) (mask_of b) = Inr completed_image \<and>
        bindE (t_mul (image_of b) (rsub 1 (mask_of b))) (\<lambda>a. t_add a (mask_of b)) = Inr masked_image \<and>
        views = (coarse_image, refined_image, masked_image, completed_image) \<and>
        s1 = emit (Call_net_G (image_of b) (mask_of b)) self)"
  unfolding visualize_batch_def Let_def
  by (auto simp: raising_def split: sum.splits prod.splits)

text \<open>One turn of the loop over the batches adds the columns of the batch.\<close>

lemma batch_turn:
  assumes "binary (mask_of b)"
    and "visualize_batch env self b = (Inr views, s1)"
    and "append_pictures (sample_pictures (image_of b) views) [0..<length (image_of b)] cols = Inr cols'"
  shows "\<exists>bc. batch_columns env (net_G self) b = Inr bc \<and>
           cols' = \<lparr>images = images cols @ images bc, coarse = coarse cols @ coarse bc,
                    refined = refined cols @ refined bc, masked = masked cols @ masked bc,
                    completed = completed cols @ completed bc\<rparr>"
proof -
  from assms(2) obtain coarse_image refined_image completed_image masked_image where
    g: "G_forward env (net_G self) (image_of b) (mask_of b) = Inr (coarse_image, refined_image)"
    and bl: "blend refined_image (image_of b) (mask_of b) = Inr completed_image"
    and m: "bindE (t_mul (image_of b) (rsub 1 (mask_of b))) (\<lambda>a. t_add a (mask_of b)) = Inr masked_image"
    and v: "views = (coarse_image, refined_image, masked_image, completed_image)"
    unfolding visualize_batch_Inr by blast
  have h: "hole_to_one (image_of b) (mask_of b) = Inr masked_image"
    using masked_is_hole_to_one[OF assms(1) m] .
  from append_pictures_columns[OF assms(3)[unfolded v]] obtain p1 p2 p3 p4 p5 where
    p: "pictures (length (image_of b)) (image_of b) = Inr p1"
       "pictures (length (image_of b)) coarse_image = Inr p2"
       "pictures (length (image_of b)) refined_image = Inr p3"
       "pictures (length (image_of b)) masked_image = Inr p4"
       "pictures (length (image_of b)) completed_image = Inr p5"
    and c': "cols' = \<lparr>images = images cols @ p1, coarse = coarse cols @ p2,
              refined = refined cols @ p3, masked = masked cols @ p4,
              completed = completed cols @ p5\<rparr>"
    unfolding pictures_def by blast
  have "batch_columns env (net_G self) b =
          Inr \<lparr>images = p1, coarse = p2, refined = p3, masked = p4, completed = p5\<rparr>"
    by (simp add: batch_columns_def Let_def g bl h p)
  with c' show ?thesis by simp
qed

lemma visualize_batches_columns:
  assumes "\<forall>b \<in> set bs. binary (mask_of b)"
    and "visualize_batches env self bs cols = (Inr cols', self')"
  shows "\<exists>cs. mapE (batch_columns env (net_G self)) bs = Inr cs \<and>
           cols' = \<lparr>images = images cols @ concat (map images cs),
                    coarse = coarse cols @ concat (map coarse cs),
                    refined = refined cols @ concat (map refined cs),
                    masked = masked cols @ concat (map masked cs),
                    completed = completed cols @ concat (map completed cs)\<rparr> \<and>
           self' = self\<lparr>trace := trace self @ map (\<lambda>b. Call_net_G (image_of b) (mask_of b)) bs\<rparr>"
  using assms
proof (induction bs arbitrary: self cols)
  case Nil
  then show ?case by (cases cols) simp
next
  case (Cons b bs)
  from Cons.prems(2) obtain views s1 cols1 where
    v: "visualize_batch env self b = (Inr views, s1)"
    and a: "append_pictures (sample_pictures (image_of b) views) [0..<length (image_of b)] cols = Inr cols1"
    and rest: "visualize_batches env s1 bs cols1 = (Inr cols', self')"
    by (auto split: prod.splits sum.splits)
  from v have s1: "s1 = emit (Call_net_G (image_of b) (mask_of b)) self"
    unfolding visualize_batch_Inr by blast
  from Cons.prems(1) have bin: "binary (mask_of b)" and bins: "\<forall>b \<in> set bs. binary (mask_of b)"
    by simp_all
  from batch_turn[OF bin v a] obtain bc where
    bc: "batch_columns env (net_G self) b = Inr bc"
    and c1: "cols1 = \<lparr>images = images cols @ images bc, coarse = coarse cols @ coarse bc,
                    refined = refined cols @ refined bc, masked = masked cols @ masked bc,
                    completed = completed cols @ completed bc\<rparr>"
    by blast
  from Cons.IH[OF bins rest] obtain cs where
    cs: "mapE (batch_columns env (net_G s1)) bs = Inr cs"
    and c': "cols' = \<lparr>images = images cols1 @ concat (map images cs),
                    coarse = coarse cols1 @ concat (map coarse cs),
                    refined = refined cols1 @ concat (map refined cs),
                    masked = masked cols1 @ concat (map masked cs),
                    completed = completed cols1 @ concat (map completed cs)\<rparr>"
    and s': "self' = s1\<lparr>trace := trace s1 @ map (\<lambda>b. Call_net_G (image_of b) (mask_of b)) bs\<rparr>"
    by blast
  have "mapE (batch_columns env (net_G self)) (b # bs) = Inr (bc # cs)"
    using bc cs by (simp add: s1)
  moreover have "cols' = \<lparr>images = images cols @ concat (map images (bc # cs)),
                    coarse = coarse cols @ concat (map coarse (bc # cs)),
                    refined = refined cols @ concat (map refined (bc # cs)),
                    masked = masked cols @ concat (map masked (bc # cs)),
                    completed = completed cols @ concat (map completed (bc # cs))\<rparr>"
    unfolding c' c1 by simp
  moreover have "self' = self\<lparr>trace := trace self @ map (\<lambda>b. Call_net_G (image_of b) (mask_of b)) (b # bs)\<rparr>"
    unfolding s' s1 by (simp add: emit_def)
  ultimately show ?case by blast
qed

subsection \<open>Pictures\<close>

lemma upt_3: "[0..<3] = [0, 1, 2]"
  by (simp add: upt_rec)

lemma denormalize_pixel_3:
  "denormalize_pixel [a, b, c] =
     [astype_uint8 ((a * 0.229 + 0.485) * 255),
      astype_uint8 ((b * 0.224 + 0.456) * 255),
      astype_uint8 ((c * 0.225 + 0.406) * 255)]"
  by (simp add: denormalize_pixel_def bzip_def norm_std_def norm_mean_def)

lemma np_transpose_120_3:
  assumes "length x = 3"
    and "\<forall>c < 3. length (x ! c) = H \<and> (\<forall>h < H. length (x ! c ! h) = W)"
  shows "np_transpose_120 x =
           map (\<lambda>h. map (\<lambda>w. [x ! 0 ! h ! w, x ! 1 ! h ! w, x ! 2 ! h ! w]) [0..<W]) [0..<H]"
proof -
  from assms(1) obtain c0 c1 c2 where x: "x = [c0, c1, c2]"
    by (cases x; cases "tl x"; cases "tl (tl x)") auto
  have l0: "length c0 = H" and r0: "\<forall>h < H. length (c0 ! h) = W"
    using assms(2)[THEN spec, of 0] by (simp_all add: x)
  show ?thesis
  proof (cases "H = 0")
    case True
    with l0 show ?thesis by (simp add: np_transpose_120_def x)
  next
    case False
    with l0 obtain r rs where c0: "c0 = r # rs" by (cases c0) auto
    with r0 False l0 have "length r = W" by auto
    then show ?thesis
      using l0 by (simp add: np_transpose_120_def x c0 upt_3 Let_def)
  qed
qed

lemma to_picture_pixels:
  assumes "length x = 3"
    and "\<forall>c < 3. length (x ! c) = H \<and> (\<forall>h < H. length (x ! c ! h) = W)"
  shows "\<exists>p. to_picture x = Inr p \<and> length p = H \<and>
           (\<forall>h < H. length (p ! h) = W \<and>
              (\<forall>w < W. p ! h ! w =
                 [astype_uint8 ((x ! 0 ! h ! w * 0.229 + 0.485) * 255),
                  astype_uint8 ((x ! 1 ! h ! w * 0.224 + 0.456) * 255),
                  astype_uint8 ((x ! 2 ! h ! w * 0.225 + 0.406) * 255)]))"
proof -
  let ?y = "map (\<lambda>h. map (\<lambda>w. [x ! 0 ! h ! w, x ! 1 ! h ! w, x ! 2 ! h ! w]) [0..<W]) [0..<H]"
  have y: "np_transpose_120 x = ?y"
    using np_transpose_120_3[OF assms] .
  have ok: "\<forall>row \<in> set ?y. \<forall>px \<in> set row. bc_len px norm_std"
    by (auto simp: bc_len_def norm_std_def)
  have "to_picture x = Inr (map (map denormalize_pixel) ?y)"
    unfolding to_picture_def y Let_def using ok by simp
  then show ?thesis
    by (simp add: denormalize_pixel_3)
qed

lemma hole_to_one_pixels:
  assumes "has_shape img N C H W" and "has_shape msk N 1 H W"
  shows "\<exists>masked_image. hole_to_one img msk = Inr masked_image \<and> has_shape masked_image N C H W \<and>
           (\<forall>n < N. \<forall>c < C. \<forall>h < H. \<forall>w < W.
              masked_image ! n ! c ! h ! w =
                (if msk ! n ! 0 ! h ! w = 1 then 1 else img ! n ! c ! h ! w))"
  using elementwise_shape[OF assms, of "\<lambda>x m. if m = 1 then 1 else x"]
  unfolding hole_to_one_def by simp

subsection \<open>The visualization succeeds on well-formed batches\<close>

lemma to_picture_shape:
  assumes "length x = 3"
    and "\<forall>c < 3. length (x ! c) = H \<and> (\<forall>h < H. length (x ! c ! h) = W)"
  shows "\<exists>p. to_picture x = Inr p \<and> pic_shape p H W"
proof -
  from to_picture_pixels[OF assms] obtain p where
    p: "to_picture x = Inr p" "length p = H"
    and rows: "\<forall>h < H. length (p ! h) = W \<and>
              (\<forall>w < W. p ! h ! w =
                 [astype_uint8 ((x ! 0 ! h ! w * 0.229 + 0.485) * 255),
                  astype_uint8 ((x ! 1 ! h ! w * 0.224 + 0.456) * 255),
                  astype_uint8 ((x ! 2 ! h ! w * 0.225 + 0.406) * 255)])"
    by blast
  have "\<forall>h < length p. length (p ! h) = W \<and> (\<forall>w < length (p ! h). length (p ! h ! w) = 3)"
    using rows p(2) by simp
  then have "pic_shape p H W"
    unfolding pic_shape_def all_set_conv_all_nth using p(2) by simp
  with p(1) show ?thesis by blast
qed

lemma sample_picture_shape:
  assumes "has_shape t N 3 H W" and "j < N"
  shows "\<exists>p. bindE (get_item t j) to_picture = Inr p \<and> pic_shape p H W"
proof -
  from assms have len: "j < length t" and l3: "length (t ! j) = 3"
    and rest: "\<forall>c < 3. length (t ! j ! c) = H \<and> (\<forall>h < H. length (t ! j ! c ! h) = W)"
    unfolding has_shape_nth by auto
  from to_picture_shape[OF l3 rest] show ?thesis
    using len by (simp add: get_item_def)
qed


lemma column_ok_snoc:
  "column_ok ps H W k \<Longrightarrow> pic_shape p H W \<Longrightarrow> column_ok (ps @ [p]) H W (Suc k)"
  by (auto simp: column_ok_def)

lemma sample_pictures_ok:
  assumes "has_shape img N 3 H W" and "has_shape c N 3 H W" and "has_shape r N 3 H W"
    and "has_shape m N 3 H W" and "has_shape cm N 3 H W"
    and "j < N" and "columns_ok cols H W k"
  shows "\<exists>cols1. sample_pictures img (c, r, m, cm) j cols = Inr cols1 \<and> columns_ok cols1 H W (Suc k)"
proof -
  from sample_picture_shape[OF assms(1) assms(6)] obtain p1 where
    p1: "bindE (get_item img j) to_picture = Inr p1" "pic_shape p1 H W" by blast
  from sample_picture_shape[OF assms(2) assms(6)] obtain p2 where
    p2: "bindE (get_item c j) to_picture = Inr p2" "pic_shape p2 H W" by blast
  from sample_picture_shape[OF assms(3) assms(6)] obtain p3 where
    p3: "bindE (get_item r j) to_picture = Inr p3" "pic_shape p3 H W" by blast
  from sample_picture_shape[OF assms(4) assms(6)] obtain p4 where
    p4: "bindE (get_item m j) to_picture = Inr p4" "pic_shape p4 H W" by blast
  from sample_picture_shape[OF assms(5) assms(6)] obtain p5 where
    p5: "bindE (get_item cm j) to_picture = Inr p5" "pic_shape p5 H W" by blast
  let ?cols1 = "\<lparr>images = images cols @ [p1], coarse = coarse cols @ [p2],
                 refined = refined cols @ [p3], masked = masked cols @ [p4],
                 completed = completed cols @ [p5]\<rparr>"
  have "sample_pictures img (c, r, m, cm) j cols = Inr ?cols1"
    unfolding sample_pictures_Inr using p1(1) p2(1) p3(1) p4(1) p5(1) by blast
  moreover have "columns_ok ?cols1 H W (Suc k)"
    using assms(7) p1(2) p2(2) p3(2) p4(2) p5(2)
    by (simp add: columns_ok_def column_ok_snoc)
  ultimately show ?thesis by blast
qed

lemma append_pictures_ok:
  assumes "has_shape img N 3 H W" and "has_shape c N 3 H W" and "has_shape r N 3 H W"
    and "has_shape m N 3 H W" and "has_shape cm N 3 H W"
  shows "\<forall>j \<in> set js. j < N \<Longrightarrow> columns_ok cols H W k \<Longrightarrow>
         \<exists>cols'. append_pictures (sample_pictures img (c, r, m, cm)) js cols = Inr cols' \<and>
                 columns_ok cols' H W (k + length js)"
proof (induction js arbitrary: cols k)
  case Nil
  then show ?case by simp
next
  case (Cons j js)
  from Cons.prems(1) have j: "j < N" and js: "\<forall>j \<in> set js. j < N" by simp_all
  from sample_pictures_ok[OF assms j Cons.prems(2)] obtain cols1 where
    one: "sample_pictures img (c, r, m, cm) j cols = Inr cols1"
    and ok1: "columns_ok cols1 H W (Suc k)" by blast
  from Cons.IH[OF js ok1] obtain cols' where
    "append_pictures (sample_pictures img (c, r, m, cm)) js cols1 = Inr cols'"
    "columns_ok cols' H W (Suc k + length js)" by blast
  with one show ?case by simp
qed

lemma masked_shape:
  assumes img: "has_shape img N C H W" and msk: "has_shape msk N 1 H W"
  shows "\<exists>masked_image. bindE (t_mul img (rsub 1 msk)) (\<lambda>a. t_add a msk) = Inr masked_image \<and>
           has_shape masked_image N C H W"
proof -
  have inv: "has_shape (rsub 1 msk) N 1 H W"
    using rsub_shape(1)[OF msk] .
  from elementwise_shape[OF img inv, of "\<lambda>x y. x * y"] obtain b where
    b: "t_mul img (rsub 1 msk) = Inr b" "has_shape b N C H W"
    unfolding t_mul_def by auto
  from elementwise_shape[OF b(2) msk, of "\<lambda>x y. x + y"] obtain r where
    "t_add b msk = Inr r" "has_shape r N C H W"
    unfolding t_add_def by auto
  with b(1) show ?thesis by simp
qed

lemma visualize_batch_ok:
  assumes "well_formed_batch env (net_G self) H W b"
  shows "\<exists>c r m cm. visualize_batch env self b =
             (Inr (c, r, m, cm), emit (Call_net_G (image_of b) (mask_of b)) self) \<and>
           has_shape c (length (image_of b)) 3 H W \<and> has_shape r (length (image_of b)) 3 H W \<and>
           has_shape m (length (image_of b)) 3 H W \<and> has_shape cm (length (image_of b)) 3 H W"
proof -
  let ?N = "length (image_of b)"
  from assms obtain c r where
    img: "has_shape (image_of b) ?N 3 H W" and msk: "has_shape (mask_of b) ?N 1 H W"
    and g: "G_forward env (net_G self) (image_of b) (mask_of b) = Inr (c, r)"
    and cs: "has_shape c ?N 3 H W" and rs: "has_shape r ?N 3 H W"
    unfolding well_formed_batch_def Let_def by (auto split: sum.splits prod.splits)
  from blend_pixels[OF img rs msk] obtain cm where
    cm: "blend r (image_of b) (mask_of b) = Inr cm" "has_shape cm ?N 3 H W" by blast
  from masked_shape[OF img msk] obtain m where
    m: "bindE (t_mul (image_of b) (rsub 1 (mask_of b))) (\<lambda>a. t_add a (mask_of b)) = Inr m"
      "has_shape m ?N 3 H W" by blast
  have "visualize_batch env self b = (Inr (c, r, m, cm), emit (Call_net_G (image_of b) (mask_of b)) self)"
    unfolding visualize_batch_Inr using g cm(1) m(1) by blast
  with cs rs m(2) cm(2) show ?thesis by blast
qed

lemma visualize_batches_ok:
  "\<forall>b \<in> set bs. well_formed_batch env (net_G self) H W b \<Longrightarrow> columns_ok cols H W k \<Longrightarrow>
   \<exists>cols' s' k'. visualize_batches env self bs cols = (Inr cols', s') \<and>
                  columns_ok cols' H W k' \<and> k + length bs \<le> k'"
proof (induction bs arbitrary: self cols k)
  case Nil
  then show ?case by auto
next
  case (Cons b bs)
  let ?N = "length (image_of b)"
  let ?s1 = "emit (Call_net_G (image_of b) (mask_of b)) self"
  from Cons.prems(1) have wf: "well_formed_batch env (net_G self) H W b"
    and wfs: "\<forall>b \<in> set bs. well_formed_batch env (net_G ?s1) H W b" by simp_all
  from wf have pos: "0 < ?N" and img: "has_shape (image_of b) ?N 3 H W"
    unfolding well_formed_batch_def Let_def by simp_all
  from visualize_batch_ok[OF wf] obtain c r m cm where
    v: "visualize_batch env self b = (Inr (c, r, m, cm), ?s1)"
    and sh: "has_shape c ?N 3 H W" "has_shape r ?N 3 H W" "has_shape m ?N 3 H W" "has_shape cm ?N 3 H W"
    by blast
  have js: "\<forall>j \<in> set [0..<?N]. j < ?N" by simp
  from append_pictures_ok[OF img sh js Cons.prems(2)] obtain cols1 where
    a: "append_pictures (sample_pictures (image_of b) (c, r, m, cm)) [0..<?N] cols = Inr cols1"
    and ok1: "columns_ok cols1 H W (k + ?N)" by auto
  from Cons.IH[OF wfs ok1] obtain cols' s' k' where
    rest: "visualize_batches env ?s1 bs cols1 = (Inr cols', s')"
    and ok': "columns_ok cols' H W k'" and le: "k + ?N + length bs \<le> k'" by blast
  have "visualize_batches env self (b # bs) cols = (Inr cols', s')"
    using v a rest by simp
  moreover have "k + length (b # bs) \<le> k'"
  proof -
    have "length (b # bs) = Suc (length bs)" by simp
    with le pos show ?thesis by linarith
  qed
  ultimately show ?case using ok' by blast
qed

lemma length_concat_uniform:
  "\<forall>p \<in> set ps. length p = H \<Longrightarrow> length (concat ps) = length ps * H"
  by (induction ps) simp_all

lemma vstack_ok:
  assumes "column_ok ps H W k" and "0 < k"
  shows "\<exists>c. vstack ps = Inr c \<and> pic_shape c (k * H) W"
proof -
  from assms have ne: "ps \<noteq> []" and len: "length ps = k"
    and sh: "\<forall>p \<in> set ps. pic_shape p H W"
    by (auto simp: column_ok_def)
  have rows: "\<forall>row \<in> set (concat ps). length row = W \<and> (\<forall>px \<in> set row. length px = 3)"
    using sh by (auto simp: pic_shape_def)
  then have u1: "uniform_len (concat ps)"
    by (simp add: uniform_len_def)
  have "\<forall>px \<in> set (concat (concat ps)). length px = 3"
    using rows by auto
  then have u2: "uniform_len (concat (concat ps))"
    by (simp add: uniform_len_def)
  have "length (concat ps) = k * H"
    using length_concat_uniform[of ps H] sh len by (simp add: pic_shape_def)
  then have "pic_shape (concat ps) (k * H) W"
    using rows by (simp add: pic_shape_def)
  moreover have "vstack ps = Inr (concat ps)"
    using ne u1 u2 by (simp add: vstack_def)
  ultimately show ?thesis by blast
qed

lemma hstack_ok:
  assumes "pic_shape c1 L W" "pic_shape c2 L W" "pic_shape c3 L W" "pic_shape c4 L W" "pic_shape c5 L W"
  shows "\<exists>g. hstack [c1, c2, c3, c4, c5] = Inr g"
proof -
  have u1: "uniform_len [c1, c2, c3, c4, c5]"
    using assms by (simp add: uniform_len_def pic_shape_def)
  have "\<forall>px \<in> set (concat (concat [c1, c2, c3, c4, c5])). length px = 3"
    using assms by (auto simp: pic_shape_def)
  then have u2: "uniform_len (concat (concat [c1, c2, c3, c4, c5]))"
    by (simp add: uniform_len_def)
  show ?thesis
    using u1 u2 by (simp add: hstack_def)
qed

lemma on_epoch_end_ok:
  assumes "visualization_dataloader self = Some loader"
    and "batches env loader \<noteq> []"
    and "\<forall>b \<in> set (batches env loader). well_formed_batch env (net_G self) H W b"
  shows "fst (on_epoch_end env self) = Inr ()"
proof -
  have c0: "columns_ok no_columns H W 0"
    by (simp add: columns_ok_def column_ok_def no_columns_def)
  from visualize_batches_ok[OF assms(3) c0] obtain cols s1 k where
    vb: "visualize_batches env self (batches env loader) no_columns = (Inr cols, s1)"
    and ok: "columns_ok cols H W k" and k: "length (batches env loader) \<le> k" by auto
  from k assms(2) have pos: "0 < k" by (cases "batches env loader") simp_all
  from ok have col: "column_ok (masked cols) H W k" "column_ok (coarse cols) H W k"
    "column_ok (refined cols) H W k" "column_ok (completed cols) H W k"
    "column_ok (images cols) H W k"
    by (simp_all add: columns_ok_def)
  from vstack_ok[OF col(1) pos] obtain c1 where c1: "vstack (masked cols) = Inr c1" "pic_shape c1 (k * H) W" by blast
  from vstack_ok[OF col(2) pos] obtain c2 where c2: "vstack (coarse cols) = Inr c2" "pic_shape c2 (k * H) W" by blast
  from vstack_ok[OF col(3) pos] obtain c3 where c3: "vstack (refined cols) = Inr c3" "pic_shape c3 (k * H) W" by blast
  from vstack_ok[OF col(4) pos] obtain c4 where c4: "vstack (completed cols) = Inr c4" "pic_shape c4 (k * H) W" by blast
  from vstack_ok[OF col(5) pos] obtain c5 where c5: "vstack (images cols) = Inr c5" "pic_shape c5 (k * H) W" by blast
  from hstack_ok[OF c1(2) c2(2) c3(2) c4(2) c5(2)] obtain g where
    g: "hstack [c1, c2, c3, c4, c5] = Inr g" by blast
  show ?thesis
    by (simp add: on_epoch_end_def assms(1) vb c1(1) c2(1) c3(1) c4(1) c5(1) g)
qed


text \<open>
  C8. On a visualization loader that yields at least one batch, every batch well
  formed, \<open>on_epoch_end\<close> returns. When it returns, on batches with masks of zeros and
  ones, it has called the generator once per batch and then logged one image at the
  current step, and changed nothing else. The image is the grid of the description: per sample one picture
  in each of five columns, stacked vertically within a column, and the columns masked,
  coarse, refined, completed, original stacked horizontally. A picture of a sample with
  three channels has at every pixel the three bytes
  \<open>astype_uint8 ((v * std + mean) * 255)\<close> with the standard deviations 0.229, 0.224, 0.225
  and the means 0.485, 0.456, 0.406; the masked image is the image with every pixel of
  the hole set to 1.
\<close>

theorem epoch_end_logs_one_grid:
  "(visualization_dataloader self = Some loader \<and>
    batches env loader \<noteq> [] \<and>
    (\<forall>b \<in> set (batches env loader). well_formed_batch env (net_G self) Hb Wb b) \<longrightarrow>
      fst (on_epoch_end env self) = Inr ())
   \<and> (visualization_dataloader self = Some loader \<and>
    (\<forall>b \<in> set (batches env loader). binary (mask_of b)) \<and>
    on_epoch_end env self = (Inr (), self') \<longrightarrow>
      (\<exists>grid. described_grid env (net_G self) (batches env loader) = Inr grid \<and>
         self' = self\<lparr>trace := trace self @
                   map (\<lambda>b. Call_net_G (image_of b) (mask_of b)) (batches env loader) @
                   [Log_image (global_step self) grid]\<rparr> \<and>
         logged_images (new_events self self') = [(global_step self, grid)]))
   \<and> (length x = 3 \<and> (\<forall>c < 3. length (x ! c) = H \<and> (\<forall>h < H. length (x ! c ! h) = W)) \<longrightarrow>
        (\<exists>p. to_picture x = Inr p \<and> length p = H \<and>
           (\<forall>h < H. length (p ! h) = W \<and>
              (\<forall>w < W. p ! h ! w =
                 [astype_uint8 ((x ! 0 ! h ! w * 0.229 + 0.485) * 255),
                  astype_uint8 ((x ! 1 ! h ! w * 0.224 + 0.456) * 255),
                  astype_uint8 ((x ! 2 ! h ! w * 0.225 + 0.406) * 255)]))))
   \<and> (has_shape img N C H W \<and> has_shape msk N 1 H W \<longrightarrow>
        (\<exists>masked_image. hole_to_one img msk = Inr masked_image \<and> has_shape masked_image N C H W \<and>
           (\<forall>n < N. \<forall>c < C. \<forall>h < H. \<forall>w < W.
              masked_image ! n ! c ! h ! w =
                (if msk ! n ! 0 ! h ! w = 1 then 1 else img ! n ! c ! h ! w))))"
proof (intro conjI impI)
  assume "visualization_dataloader self = Some loader \<and>
    batches env loader \<noteq> [] \<and>
    (\<forall>b \<in> set (batches env loader). well_formed_batch env (net_G self) Hb Wb b)"
  then show "fst (on_epoch_end env self) = Inr ()"
    using on_epoch_end_ok[of self loader env Hb Wb] by blast
next
  assume a: "visualization_dataloader self = Some loader \<and>
    (\<forall>b \<in> set (batches env loader). binary (mask_of b)) \<and>
    on_epoch_end env self = (Inr (), self')"
  let ?bs = "batches env loader"
  from a have ld: "visualization_dataloader self = Some loader"
    and bin: "\<forall>b \<in> set ?bs. binary (mask_of b)"
    and ok: "on_epoch_end env self = (Inr (), self')" by simp_all
  obtain r s1 where vb: "visualize_batches env self ?bs no_columns = (r, s1)"
    by (cases "visualize_batches env self ?bs no_columns")
  from ok ld vb obtain cols c1 c2 c3 c4 c5 grid where
    r: "r = Inr cols"
    and v: "vstack (masked cols) = Inr c1" "vstack (coarse cols) = Inr c2"
      "vstack (refined cols) = Inr c3" "vstack (completed cols) = Inr c4"
      "vstack (images cols) = Inr c5"
    and h: "hstack [c1, c2, c3, c4, c5] = Inr grid"
    and s': "self' = emit (Log_image (global_step s1) grid) s1"
    by (auto simp: on_epoch_end_def raising_def split: sum.splits)
  from visualize_batches_columns[OF bin vb[unfolded r]] obtain cs where
    cs: "mapE (batch_columns env (net_G self)) ?bs = Inr cs"
    and cols: "cols = \<lparr>images = images no_columns @ concat (map images cs),
                    coarse = coarse no_columns @ concat (map coarse cs),
                    refined = refined no_columns @ concat (map refined cs),
                    masked = masked no_columns @ concat (map masked cs),
                    completed = completed no_columns @ concat (map completed cs)\<rparr>"
    and s1: "s1 = self\<lparr>trace := trace self @ map (\<lambda>b. Call_net_G (image_of b) (mask_of b)) ?bs\<rparr>"
    by blast
  have dg: "described_grid env (net_G self) ?bs = Inr grid"
    using cs v h by (simp add: described_grid_def cols no_columns_def)
  have st: "self' = self\<lparr>trace := trace self @
                   map (\<lambda>b. Call_net_G (image_of b) (mask_of b)) ?bs @
                   [Log_image (global_step self) grid]\<rparr>"
    unfolding s' s1 by (simp add: emit_def)
  have "logged_images (map (\<lambda>b. Call_net_G (image_of b) (mask_of b)) ?bs) = []"
    by (induction ?bs) (simp_all add: logged_images_def)
  then have "logged_images (new_events self self') = [(global_step self, grid)]"
    unfolding st by (simp add: logged_images_def)
  with dg st show "\<exists>grid. described_grid env (net_G self) ?bs = Inr grid \<and>
         self' = self\<lparr>trace := trace self @
                   map (\<lambda>b. Call_net_G (image_of b) (mask_of b)) ?bs @
                   [Log_image (global_step self) grid]\<rparr> \<and>
         logged_images (new_events self self') = [(global_step self, grid)]"
    by blast
next
  assume "length x = 3 \<and> (\<forall>c < 3. length (x ! c) = H \<and> (\<forall>h < H. length (x ! c ! h) = W))"
  then show "\<exists>p. to_picture x = Inr p \<and> length p = H \<and>
           (\<forall>h < H. length (p ! h) = W \<and>
              (\<forall>w < W. p ! h ! w =
                 [astype_uint8 ((x ! 0 ! h ! w * 0.229 + 0.485) * 255),
                  astype_uint8 ((x ! 1 ! h ! w * 0.224 + 0.456) * 255),
                  astype_uint8 ((x ! 2 ! h ! w * 0.225 + 0.406) * 255)]))"
    using to_picture_pixels[of x H W] by blast
next
  assume "has_shape img N C H W \<and> has_shape msk N 1 H W"
  then show "\<exists>masked_image. hole_to_one img msk = Inr masked_image \<and> has_shape masked_image N C H W \<and>
           (\<forall>n < N. \<forall>c < C. \<forall>h < H. \<forall>w < W.
              masked_image ! n ! c ! h ! w =
                (if msk ! n ! 0 ! h ! w = 1 then 1 else img ! n ! c ! h ! w))"
    using hole_to_one_pixels[of img N C H W msk] by blast
qed


theorem epoch_end_logs_one_grid_witness:
  "visualization_dataloader model0 =
     Some (DataLoader (InpaintDataset ''places'' ''vis'' 256 128 (1 / 4) 0 1 False) 1 False 0 False)
   \<and> batches env0 (DataLoader (InpaintDataset ''places'' ''vis'' 256 128 (1 / 4) 0 1 False) 1 False 0 False)
       = [batch0]
   \<and> binary (mask_of batch0)
   \<and> well_formed_batch env0 (net_G model0) 1 2 batch0
   \<and> fst (on_epoch_end env0 model0) = Inr ()
   \<and> described_grid env0 (net_G model0) [batch0] =
       Inr [[[152, 116, 218], [182, 173, 160], [123, 116, 103], [123, 116, 103],
             [211, 173, 19], [123, 230, 175], [152, 116, 218], [123, 230, 175],
             [152, 116, 218], [65, 173, 117]]]
   \<and> logged_images (new_events model0 (snd (on_epoch_end env0 model0))) =
       [(0, [[[152, 116, 218], [182, 173, 160], [123, 116, 103], [123, 116, 103],
              [211, 173, 19], [123, 230, 175], [152, 116, 218], [123, 230, 175],
              [152, 116, 218], [65, 173, 117]]])]
   \<and> to_picture [[[1 / 2, - 1]], [[0, 1]], [[2, 1 / 4]]] = Inr [[[152, 116, 218], [65, 173, 117]]]
   \<and> hole_to_one (image_of batch0) (mask_of batch0) = Inr [[[[1 / 2, 1]], [[0, 1]], [[2, 1]]]]"
proof -
  let ?L = "DataLoader (InpaintDataset ''places'' ''vis'' 256 128 (1 / 4) 0 1 False) 1 False 0 False"
  let ?G = "[[[152, 116, 218], [182, 173, 160], [123, 116, 103], [123, 116, 103],
             [211, 173, 19], [123, 230, 175], [152, 116, 218], [123, 230, 175],
             [152, 116, 218], [65, 173, 117]]] :: picture"
  let ?x = "[[[1 / 2, - 1]], [[0, 1]], [[2, 1 / 4]]] :: real list list list"
  note T0 = epoch_end_logs_one_grid [of model0 ?L env0 1 2 "snd (on_epoch_end env0 model0)" ?x 1 2
      "image_of batch0" 1 3 "mask_of batch0"]
  note T = T0[THEN conjunct2]
  have h1: "visualization_dataloader model0 = Some ?L" by code_simp
  have h2: "batches env0 ?L = [batch0]" by (simp add: env0_def)
  have h3: "binary (mask_of batch0)" by code_simp
  have wf: "well_formed_batch env0 (net_G model0) 1 2 batch0" by code_simp
  have pre0: "visualization_dataloader model0 = Some ?L \<and> batches env0 ?L \<noteq> [] \<and>
      (\<forall>b \<in> set (batches env0 ?L). well_formed_batch env0 (net_G model0) 1 2 b)"
    using h1 h2 wf by simp
  have h4: "fst (on_epoch_end env0 model0) = Inr ()"
    using T0[THEN conjunct1, THEN mp, OF pre0] .
  then have h5: "on_epoch_end env0 model0 = (Inr (), snd (on_epoch_end env0 model0))"
    by (simp add: prod_eq_iff)
  have h6: "\<forall>b \<in> set (batches env0 ?L). binary (mask_of b)"
    using h2 h3 by simp
  have pre: "visualization_dataloader model0 = Some ?L \<and>
      (\<forall>b \<in> set (batches env0 ?L). binary (mask_of b)) \<and>
      on_epoch_end env0 model0 = (Inr (), snd (on_epoch_end env0 model0))"
    using h1 h5 h6 by (intro conjI)
  from T[THEN conjunct1, THEN mp, OF pre] obtain grid where
    g: "described_grid env0 (net_G model0) (batches env0 ?L) = Inr grid"
    and l: "logged_images (new_events model0 (snd (on_epoch_end env0 model0))) =
              [(global_step model0, grid)]"
    by (elim exE conjE)
  have dg: "described_grid env0 (net_G model0) [batch0] = Inr ?G" by code_simp
  with g h2 have grid: "grid = ?G" by simp
  have gs: "global_step model0 = 0" by code_simp
  from l grid gs have lg: "logged_images (new_events model0 (snd (on_epoch_end env0 model0))) = [(0, ?G)]"
    by simp
  have x1: "length ?x = 3" by simp
  have x2: "\<forall>c < 3. length (?x ! c) = 1 \<and> (\<forall>h < 1. length (?x ! c ! h) = 2)"
    by (simp add: less_Suc_eq numeral_3_eq_3)
  have prx: "length ?x = 3 \<and> (\<forall>c < 3. length (?x ! c) = 1 \<and> (\<forall>h < 1. length (?x ! c ! h) = 2))"
    using x1 x2 by (intro conjI)
  from T[THEN conjunct2, THEN conjunct1, THEN mp, OF prx]
  obtain p where p: "to_picture ?x = Inr p" by (elim exE conjE)
  have tp: "to_picture ?x = Inr [[[152, 116, 218], [65, 173, 117]]]" by code_simp
  have s1: "has_shape (image_of batch0) 1 3 1 2" by code_simp
  have s2: "has_shape (mask_of batch0) 1 1 1 2" by code_simp
  have prs: "has_shape (image_of batch0) 1 3 1 2 \<and> has_shape (mask_of batch0) 1 1 1 2"
    using s1 s2 by (intro conjI)
  from T[THEN conjunct2, THEN conjunct2, THEN mp, OF prs]
  obtain masked_image where m: "hole_to_one (image_of batch0) (mask_of batch0) = Inr masked_image"
    by (elim exE conjE)
  have hm: "hole_to_one (image_of batch0) (mask_of batch0) = Inr [[[[1 / 2, 1]], [[0, 1]], [[2, 1]]]]"
    by code_simp
  from h1 h2 h3 wf h4 dg lg tp hm show ?thesis by (intro conjI)
qed

end
